theory Spec2Isabelle
  imports Complex_Main "HOL-Library.Word"
begin

section \<open>The C++ primitives the ride sharing program relies on\<close>

subsection \<open>\<^verbatim>\<open>double\<close>: IEEE 754 binary64, round to nearest, ties to even\<close>

text \<open>
  Every amount of \<^verbatim>\<open>Ride_Sharing_System.cpp\<close> (distance, fare rate, luxury multiplier,
  rating, the running totals) is a C++ \<^verbatim>\<open>double\<close>. A finite double is
  \<open>Finite s m e\<close>, the number \<open>(-1)\<^sup>s \<times> m \<times> 2\<^sup>e\<close>, in the canonical form
  \<open>m < 2\<^sup>5\<^sup>3\<close>, \<open>-1074 \<le> e \<le> 971\<close> and \<open>2\<^sup>5\<^sup>2 \<le> m\<close> unless \<open>e = -1074\<close> (zero and the
  subnormal numbers). Each operation computes the exact result and rounds it once, to the
  nearest double, ties to even (every operation is evaluated in double precision, none is
  fused with another).

  A NaN is \<open>NaN s\<close> with its sign bit \<open>s\<close>, which \<^verbatim>\<open>operator<<\<close> shows: it prints
  \<^verbatim>\<open>nan\<close> or \<^verbatim>\<open>-nan\<close>. The payload is left out, the program has no operation that reads
  it. The arithmetic on NaNs is that of the x86-64 instructions \<^verbatim>\<open>mulsd\<close> and \<^verbatim>\<open>addsd\<close>:
  an operation without a NaN operand and without a result (\<open>0 \<times> \<infinity>\<close>, \<open>\<infinity> - \<infinity>\<close>) gives the
  NaN with the sign bit set; an operation with one NaN operand gives that NaN, sign
  included. With two NaN operands the instruction gives its first operand, and which
  operand of the C++ expression that is, is the choice of the compiler; \<open>dmul\<close> and
  \<open>dadd\<close> take the left one. The program multiplies a distance by its own constants
  only, so that two NaNs can meet in a sum alone; what is proved about the sums of fares
  is proved for the fares for which this choice makes no difference.
\<close>

datatype double = Finite bool nat int | Infinity bool | NaN bool

fun ndigits :: "nat \<Rightarrow> nat \<Rightarrow> nat" where
  "ndigits b n = (if n = 0 \<or> b < 2 then 0 else Suc (ndigits b (n div b)))"

declare ndigits.simps [simp del]

definition floor_log2 :: "nat \<Rightarrow> nat \<Rightarrow> int" where
  \<comment> \<open>\<open>\<lfloor>log\<^sub>2 (N / D)\<rfloor>\<close> for \<open>N, D > 0\<close>\<close>
  "floor_log2 N D =
     (let t = int (ndigits 2 N) - int (ndigits 2 D)
      in if D * 2 ^ nat t \<le> N * 2 ^ nat (- t) then t else t - 1)"

definition round_div :: "nat \<Rightarrow> nat \<Rightarrow> nat" where
  \<comment> \<open>the integer nearest to \<open>a / b\<close>, ties to even\<close>
  "round_div a b =
     (let q = a div b; r = a mod b
      in if b < 2 * r \<or> (2 * r = b \<and> odd q) then q + 1 else q)"

definition round_nearest_even :: "bool \<Rightarrow> nat \<Rightarrow> nat \<Rightarrow> double" where
  \<comment> \<open>the double nearest to \<open>(-1)\<^sup>s \<times> N / D\<close>, for \<open>D > 0\<close>\<close>
  "round_nearest_even s N D =
     (if N = 0 then Finite s 0 (- 1074)
      else
        let e = max (floor_log2 N D - 52) (- 1074);
            m = round_div (N * 2 ^ nat (- e)) (D * 2 ^ nat e);
            e' = (if m = 2 ^ 53 then e + 1 else e);
            m' = (if m = 2 ^ 53 then 2 ^ 52 else m)
        in if 971 < e' then Infinity s else Finite s m' e')"

definition dlit :: "nat \<Rightarrow> nat \<Rightarrow> double" where
  \<comment> \<open>the decimal literal with the digits \<open>a\<close> over the power of ten \<open>b\<close>:
      \<^verbatim>\<open>15.5\<close> is \<open>dlit 155 10\<close>\<close>
  "dlit a b = round_nearest_even False a b"

definition with_sign :: "bool \<Rightarrow> nat \<Rightarrow> int" where
  "with_sign s m = (if s then - int m else int m)"

fun dmul :: "double \<Rightarrow> double \<Rightarrow> double" where
  "dmul (NaN s) y = NaN s"
| "dmul (Infinity s) (NaN t) = NaN t"
| "dmul (Finite s m e) (NaN t) = NaN t"
| "dmul (Infinity s) (Infinity t) = Infinity (s \<noteq> t)"
| "dmul (Infinity s) (Finite t n f) = (if n = 0 then NaN True else Infinity (s \<noteq> t))"
| "dmul (Finite s m e) (Infinity t) = (if m = 0 then NaN True else Infinity (s \<noteq> t))"
| "dmul (Finite s m e) (Finite t n f) =
     round_nearest_even (s \<noteq> t) (m * n * 2 ^ nat (e + f)) (2 ^ nat (- (e + f)))"

fun dadd :: "double \<Rightarrow> double \<Rightarrow> double" where
  "dadd (NaN s) y = NaN s"
| "dadd (Infinity s) (NaN t) = NaN t"
| "dadd (Finite s m e) (NaN t) = NaN t"
| "dadd (Infinity s) (Infinity t) = (if s = t then Infinity s else NaN True)"
| "dadd (Infinity s) (Finite t n f) = Infinity s"
| "dadd (Finite s m e) (Infinity t) = Infinity t"
| "dadd (Finite s m e) (Finite t n f) =
     (let k = min e f;
          c = with_sign s m * 2 ^ nat (e - k) + with_sign t n * 2 ^ nat (f - k)
      in if c = 0 then Finite (s \<and> t) 0 (- 1074)
         else round_nearest_even (c < 0) (nat \<bar>c\<bar> * 2 ^ nat k) (2 ^ nat (- k)))"

fun dneg :: "double \<Rightarrow> double" where
  \<comment> \<open>unary minus: the sign bit is flipped, that of a NaN too\<close>
  "dneg (NaN s) = NaN (\<not> s)"
| "dneg (Infinity s) = Infinity (\<not> s)"
| "dneg (Finite s m e) = Finite (\<not> s) m e"

fun dle :: "double \<Rightarrow> double \<Rightarrow> bool" where
  \<comment> \<open>the comparison \<^verbatim>\<open>x <= y\<close>: false when either side is a NaN\<close>
  "dle (NaN s) y = False"
| "dle (Infinity s) (NaN t) = False"
| "dle (Finite s m e) (NaN t) = False"
| "dle (Infinity s) (Infinity t) = (s \<or> \<not> t)"
| "dle (Infinity s) (Finite t n f) = s"
| "dle (Finite s m e) (Infinity t) = (\<not> t)"
| "dle (Finite s m e) (Finite t n f) =
     (with_sign s m * 2 ^ nat (e - min e f) \<le> with_sign t n * 2 ^ nat (f - min e f))"

definition dlt :: "double \<Rightarrow> double \<Rightarrow> bool" where
  \<comment> \<open>the comparison \<^verbatim>\<open>x < y\<close>\<close>
  "dlt x y = (dle x y \<and> \<not> dle y x)"

fun is_double :: "double \<Rightarrow> bool" where
  \<comment> \<open>the canonical form\<close>
  "is_double (Finite s m e) =
     (m < 2 ^ 53 \<and> - 1074 \<le> e \<and> e \<le> 971 \<and> (2 ^ 52 \<le> m \<or> e = - 1074))"
| "is_double d = True"

fun valof :: "double \<Rightarrow> real" where
  \<comment> \<open>the real number that a finite double stands for\<close>
  "valof (Finite s m e) = real_of_int (with_sign s m) * 2 powr (real_of_int e)"
| "valof d = 0"

fun is_nan :: "double \<Rightarrow> bool" where
  "is_nan (NaN s) = True"
| "is_nan d = False"


subsection \<open>Decimal text\<close>

definition digit_char :: "nat \<Rightarrow> char" where
  "digit_char n = ''0123456789'' ! n"

fun show_nat :: "nat \<Rightarrow> string" where
  "show_nat n = (if n < 10 then [digit_char n] else show_nat (n div 10) @ [digit_char (n mod 10)])"

declare show_nat.simps [simp del]

definition show_int :: "int \<Rightarrow> string" where
  "show_int i = (if i < 0 then ''-'' @ show_nat (nat (- i)) else show_nat (nat i))"

definition pad_digits :: "nat \<Rightarrow> nat \<Rightarrow> string" where
  \<comment> \<open>the digits of \<open>n\<close>, filled with zeros on the left to at least \<open>p\<close> digits\<close>
  "pad_digits p n = replicate (p - length (show_nat n)) (CHR ''0'') @ show_nat n"

definition sign_str :: "bool \<Rightarrow> string" where
  "sign_str s = (if s then ''-'' else [])"

definition with_frac :: "string \<Rightarrow> string \<Rightarrow> string" where
  "with_frac ip fp = (if fp = [] then ip else ip @ ''.'' @ fp)"

definition strip_zeros :: "string \<Rightarrow> string" where
  "strip_zeros ds = rev (dropWhile (\<lambda>c. c = CHR ''0'') (rev ds))"

definition floor_log10 :: "nat \<Rightarrow> nat \<Rightarrow> int" where
  \<comment> \<open>\<open>\<lfloor>log\<^sub>1\<^sub>0 (N / D)\<rfloor>\<close> for \<open>N, D > 0\<close>\<close>
  "floor_log10 N D =
     (if D \<le> N then int (ndigits 10 (N div D)) - 1
      else let k = ndigits 10 (D div N)
           in if N * 10 ^ (k - 1) = D then - (int k - 1) else - int k)"

text \<open>
  \<open>fmt_fixed p\<close> is the conversion \<^verbatim>\<open>%.pf\<close> and \<open>fmt_general p\<close> the conversion
  \<^verbatim>\<open>%.pg\<close> of the C library, which \<^verbatim>\<open>operator<<\<close> applies to a \<^verbatim>\<open>double\<close> when the
  stream's float field is \<^verbatim>\<open>fixed\<close>, respectively unset. Both round the exact value of
  the double, ties to even, and both put the sign in front of \<^verbatim>\<open>inf\<close> and \<^verbatim>\<open>nan\<close> too.
\<close>

fun fmt_fixed :: "nat \<Rightarrow> double \<Rightarrow> string" where
  "fmt_fixed p (NaN s) = sign_str s @ ''nan''"
| "fmt_fixed p (Infinity s) = sign_str s @ ''inf''"
| "fmt_fixed p (Finite s m e) =
     (let n = round_div (m * 10 ^ p * 2 ^ nat e) (2 ^ nat (- e))
      in sign_str s @
         with_frac (show_nat (n div 10 ^ p)) (if p = 0 then [] else pad_digits p (n mod 10 ^ p)))"

fun fmt_general :: "nat \<Rightarrow> double \<Rightarrow> string" where
  "fmt_general p (NaN s) = sign_str s @ ''nan''"
| "fmt_general p (Infinity s) = sign_str s @ ''inf''"
| "fmt_general p (Finite s m e) =
     (if m = 0 then sign_str s @ ''0''
      else
        let P = (if p = 0 then 1 else p);
            N = m * 2 ^ nat e;
            D = 2 ^ nat (- e);
            X0 = floor_log10 N D;
            D0 = round_div (N * 10 ^ nat (int P - 1 - X0)) (D * 10 ^ nat (X0 - (int P - 1)));
            X = (if D0 = 10 ^ P then X0 + 1 else X0);
            ds = pad_digits P (if D0 = 10 ^ P then 10 ^ (P - 1) else D0)
        in sign_str s @
           (if X < - 4 \<or> int P \<le> X then
              with_frac (take 1 ds) (strip_zeros (drop 1 ds)) @ ''e'' @
              (if X < 0 then ''-'' else ''+'') @ pad_digits 2 (nat \<bar>X\<bar>)
            else if 0 \<le> X then
              with_frac (take (nat X + 1) ds) (strip_zeros (drop (nat X + 1) ds))
            else
              with_frac ''0'' (replicate (nat (- X - 1)) (CHR ''0'') @ strip_zeros ds)))"

subsection \<open>\<^verbatim>\<open>std::cout\<close>: the text written so far and the sticky format state\<close>

record ostream =
  buffer :: string
  floatfield_fixed :: bool
  precision :: nat

definition cout :: ostream where
  \<comment> \<open>the stream at program start: float field unset, precision 6\<close>
  "cout = \<lparr>buffer = [], floatfield_fixed = False, precision = 6\<rparr>"

fun chain :: "(ostream \<Rightarrow> ostream) list \<Rightarrow> ostream \<Rightarrow> ostream" where
  \<comment> \<open>a chain of insertions \<^verbatim>\<open>std::cout << a << b << ...\<close>, applied from left to right\<close>
  "chain [] os = os"
| "chain (f # fs) os = chain fs (f os)"

definition put_str :: "string \<Rightarrow> ostream \<Rightarrow> ostream" where
  "put_str s os = os\<lparr>buffer := buffer os @ s\<rparr>"

definition endl :: "ostream \<Rightarrow> ostream" where
  "endl os = put_str ''\<newline>'' os"

definition put_int :: "32 word \<Rightarrow> ostream \<Rightarrow> ostream" where
  "put_int i os = put_str (show_int (sint i)) os"

definition put_size :: "nat \<Rightarrow> ostream \<Rightarrow> ostream" where
  "put_size n os = put_str (show_nat n) os"

definition fmt_double :: "ostream \<Rightarrow> double \<Rightarrow> string" where
  \<comment> \<open>the text of a \<^verbatim>\<open>double\<close> under the stream's current format state\<close>
  "fmt_double os d =
     (if floatfield_fixed os then fmt_fixed (precision os) d else fmt_general (precision os) d)"

definition put_double :: "double \<Rightarrow> ostream \<Rightarrow> ostream" where
  "put_double d os = put_str (fmt_double os d) os"

definition set_fixed :: "ostream \<Rightarrow> ostream" where
  \<comment> \<open>\<^verbatim>\<open>std::fixed\<close>\<close>
  "set_fixed os = os\<lparr>floatfield_fixed := True\<rparr>"

definition setprecision :: "nat \<Rightarrow> ostream \<Rightarrow> ostream" where
  "setprecision n os = os\<lparr>precision := n\<rparr>"


section \<open>The ride sharing system\<close>

subsection \<open>\<^verbatim>\<open>class Ride\<close> and its subclasses\<close>

text \<open>
  The data members of the base class. An object is a value of type \<open>Ride\<close> whose
  constructor is its dynamic class; a \<^verbatim>\<open>PremiumRide\<close> adds \<^verbatim>\<open>luxuryMultiplier\<close>.
  Rides have no setters, so a \<^verbatim>\<open>std::shared_ptr<Ride>\<close> is modelled by the object it
  points to, or \<open>None\<close> for the null pointer. Dereferencing a null pointer, which C++
  leaves undefined, is the one error of the model and ends the operation; running out
  of memory is not modelled.
\<close>

record Ride_members =
  rideID :: "32 word"
  pickupLocation :: string
  dropoffLocation :: string
  distance :: double
  baseFareRate :: double

datatype Ride =
    Ride Ride_members
  | StandardRide Ride_members
  | PremiumRide Ride_members double

type_synonym Ride_ptr = "Ride option"

datatype error = NullPointerDereference

fun members :: "Ride \<Rightarrow> Ride_members" where
  "members (Ride b) = b"
| "members (StandardRide b) = b"
| "members (PremiumRide b lm) = b"

definition Ride_ctor :: "32 word \<Rightarrow> string \<Rightarrow> string \<Rightarrow> double \<Rightarrow> Ride_members" where
  \<comment> \<open>the member initialiser list of \<^verbatim>\<open>Ride::Ride\<close>\<close>
  "Ride_ctor ident pickup dropoff dist' =
     \<lparr>rideID = ident, pickupLocation = pickup, dropoffLocation = dropoff, distance = dist',
      baseFareRate = dlit 20 10\<rparr>"

definition new_Ride :: "32 word \<Rightarrow> string \<Rightarrow> string \<Rightarrow> double \<Rightarrow> Ride" where
  "new_Ride ident pickup dropoff dist' = Ride (Ride_ctor ident pickup dropoff dist')"

definition new_StandardRide :: "32 word \<Rightarrow> string \<Rightarrow> string \<Rightarrow> double \<Rightarrow> Ride" where
  "new_StandardRide ident pickup dropoff dist' =
     StandardRide ((Ride_ctor ident pickup dropoff dist')\<lparr>baseFareRate := dlit 20 10\<rparr>)"

definition new_PremiumRide :: "32 word \<Rightarrow> string \<Rightarrow> string \<Rightarrow> double \<Rightarrow> Ride" where
  "new_PremiumRide ident pickup dropoff dist' =
     PremiumRide ((Ride_ctor ident pickup dropoff dist')\<lparr>baseFareRate := dlit 35 10\<rparr>) (dlit 18 10)"

definition getRideID :: "Ride \<Rightarrow> 32 word" where
  "getRideID r = rideID (members r)"

definition getPickupLocation :: "Ride \<Rightarrow> string" where
  "getPickupLocation r = pickupLocation (members r)"

definition getDropoffLocation :: "Ride \<Rightarrow> string" where
  "getDropoffLocation r = dropoffLocation (members r)"

definition getDistance :: "Ride \<Rightarrow> double" where
  "getDistance r = distance (members r)"

text \<open>
  The bodies of the three \<^verbatim>\<open>fare\<close> functions, each on the object \<^verbatim>\<open>*this\<close>, and the
  virtual call \<^verbatim>\<open>ride->fare()\<close>, which selects the body by the dynamic class.
\<close>

definition Ride_fare :: "Ride \<Rightarrow> double" where
  "Ride_fare this = dmul (distance (members this)) (baseFareRate (members this))"

definition StandardRide_fare :: "Ride \<Rightarrow> double" where
  "StandardRide_fare this = dmul (getDistance this) (baseFareRate (members this))"

fun luxuryMultiplier :: "Ride \<Rightarrow> double" where
  \<comment> \<open>a member of \<^verbatim>\<open>PremiumRide\<close> only; read by the bodies of \<^verbatim>\<open>PremiumRide\<close> alone\<close>
  "luxuryMultiplier (PremiumRide b lm) = lm"
| "luxuryMultiplier r = NaN False"

definition PremiumRide_fare :: "Ride \<Rightarrow> double" where
  "PremiumRide_fare this =
     dmul (dmul (getDistance this) (baseFareRate (members this))) (luxuryMultiplier this)"

fun fare :: "Ride \<Rightarrow> double" where
  "fare (Ride b) = Ride_fare (Ride b)"
| "fare (StandardRide b) = StandardRide_fare (StandardRide b)"
| "fare (PremiumRide b lm) = PremiumRide_fare (PremiumRide b lm)"

definition Ride_getRideType :: "Ride \<Rightarrow> string" where
  "Ride_getRideType this = ''Standard''"

definition StandardRide_getRideType :: "Ride \<Rightarrow> string" where
  "StandardRide_getRideType this = ''Standard''"

definition PremiumRide_getRideType :: "Ride \<Rightarrow> string" where
  "PremiumRide_getRideType this = ''Premium''"

fun getRideType :: "Ride \<Rightarrow> string" where
  "getRideType (Ride b) = Ride_getRideType (Ride b)"
| "getRideType (StandardRide b) = StandardRide_getRideType (StandardRide b)"
| "getRideType (PremiumRide b lm) = PremiumRide_getRideType (PremiumRide b lm)"

definition Ride_rideDetails :: "Ride \<Rightarrow> ostream \<Rightarrow> ostream" where
  \<comment> \<open>\<^verbatim>\<open>Ride::rideDetails\<close>; its call of \<^verbatim>\<open>fare()\<close> is virtual\<close>
  "Ride_rideDetails this =
     (chain [put_str ''Ride ID: '', put_int (rideID (members this)), endl,
             put_str ''Pickup: '', put_str (pickupLocation (members this)), endl,
             put_str ''Dropoff: '', put_str (dropoffLocation (members this)), endl,
             put_str ''Distance: '', put_double (distance (members this)),
             put_str '' miles'', endl, put_str ''Fare: $'', set_fixed,
             setprecision 2, put_double (fare this), endl])"

definition PremiumRide_rideDetails :: "Ride \<Rightarrow> ostream \<Rightarrow> ostream" where
  "PremiumRide_rideDetails this =
     (chain [put_str ''=== PREMIUM RIDE ==='', endl, Ride_rideDetails this,
             put_str ''Luxury Multiplier: '', put_double (luxuryMultiplier this),
             put_str ''x'', endl])"

fun rideDetails :: "Ride \<Rightarrow> ostream \<Rightarrow> ostream" where
  \<comment> \<open>the virtual call; \<^verbatim>\<open>StandardRide\<close> inherits the body of \<^verbatim>\<open>Ride\<close>\<close>
  "rideDetails (Ride b) = Ride_rideDetails (Ride b)"
| "rideDetails (StandardRide b) = Ride_rideDetails (StandardRide b)"
| "rideDetails (PremiumRide b lm) = PremiumRide_rideDetails (PremiumRide b lm)"

text \<open>
  The detail block as the specification describes it: the four lines with id, pickup,
  dropoff and distance, then the line with the fare to two decimal places. The text of
  the distance depends on the format state \<open>os\<close> that the stream is in when the block
  starts.
\<close>

definition shared_fields :: "Ride \<Rightarrow> ostream \<Rightarrow> string" where
  "shared_fields r os =
     ''Ride ID: '' @ show_int (sint (getRideID r)) @ ''\<newline>'' @
     ''Pickup: '' @ getPickupLocation r @ ''\<newline>'' @
     ''Dropoff: '' @ getDropoffLocation r @ ''\<newline>'' @
     ''Distance: '' @ fmt_double os (getDistance r) @ '' miles\<newline>''"

definition fare_line :: "double \<Rightarrow> string" where
  "fare_line f = ''Fare: $'' @ fmt_fixed 2 f @ ''\<newline>''"

definition detail_block :: "Ride \<Rightarrow> ostream \<Rightarrow> string" where
  "detail_block r os = shared_fields r os @ fare_line (fare r)"

subsection \<open>\<^verbatim>\<open>class Driver\<close>\<close>

record Driver =
  driverID :: "32 word"
  name :: string
  rating :: double
  assignedRides :: "Ride_ptr list"

definition new_Driver :: "32 word \<Rightarrow> string \<Rightarrow> double \<Rightarrow> Driver" where
  "new_Driver ident driverName driverRating =
     \<lparr>driverID = ident, name = driverName, rating = driverRating, assignedRides = []\<rparr>"

definition addRide :: "Ride_ptr \<Rightarrow> Driver \<Rightarrow> Driver" where
  "addRide ride this = this\<lparr>assignedRides := assignedRides this @ [ride]\<rparr>"

fun getDriverInfo_loop :: "Ride_ptr list \<Rightarrow> double \<Rightarrow> error + double" where
  \<comment> \<open>\<^verbatim>\<open>for (const auto& ride : assignedRides) totalEarnings += ride->fare();\<close>\<close>
  "getDriverInfo_loop [] totalEarnings = Inr totalEarnings"
| "getDriverInfo_loop (None # rides) totalEarnings = Inl NullPointerDereference"
| "getDriverInfo_loop (Some ride # rides) totalEarnings =
     getDriverInfo_loop rides (dadd totalEarnings (fare ride))"

definition getDriverInfo :: "Driver \<Rightarrow> ostream \<Rightarrow> error + ostream" where
  "getDriverInfo this os =
     (let os = (chain [put_str ''\<newline>=== DRIVER INFORMATION ==='', endl,
                       put_str ''Driver ID: '', put_int (driverID this), endl,
                       put_str ''Name: '', put_str (Driver.name this), endl,
                       put_str ''Rating: '', put_double (rating this), put_str ''/5.0'', endl,
                       put_str ''Total Rides Completed: '',
                       put_size (length (assignedRides this)), endl]) os
      in case getDriverInfo_loop (assignedRides this) (dlit 0 10) of
           Inl e \<Rightarrow> Inl e
         | Inr totalEarnings \<Rightarrow>
             Inr ((chain [put_str ''Total Earnings: $'', set_fixed, setprecision 2,
                          put_double totalEarnings, endl]) os))"

definition Driver_getRideCount :: "Driver \<Rightarrow> nat" where
  "Driver_getRideCount this = length (assignedRides this)"

subsection \<open>\<^verbatim>\<open>class Rider\<close>\<close>

record Rider =
  riderID :: "32 word"
  name :: string
  requestedRides :: "Ride_ptr list"

definition new_Rider :: "32 word \<Rightarrow> string \<Rightarrow> Rider" where
  "new_Rider ident riderName = \<lparr>riderID = ident, name = riderName, requestedRides = []\<rparr>"

definition requestRide :: "Ride_ptr \<Rightarrow> Rider \<Rightarrow> ostream \<Rightarrow> Rider \<times> ostream" where
  "requestRide ride this os =
     (this\<lparr>requestedRides := requestedRides this @ [ride]\<rparr>,
      (chain [put_str ''Ride requested by '', put_str (Rider.name this),
              put_str '' (ID: '', put_int (riderID this), put_str '')'', endl]) os)"

function viewRides_loop ::
    "Ride_ptr list \<Rightarrow> nat \<Rightarrow> double \<Rightarrow> ostream \<Rightarrow> error + double \<times> ostream" where
  "viewRides_loop rides i totalSpent os =
     (if i < length rides then
        (case rides ! i of
           None \<Rightarrow> Inl NullPointerDereference
         | Some ride \<Rightarrow>
             viewRides_loop rides (i + 1) (dadd totalSpent (fare ride))
               ((chain [put_str ''\<newline>--- Ride '', put_size (i + 1), put_str '' ---'',
                        endl, rideDetails ride]) os))
      else Inr (totalSpent, os))"
  by pat_completeness auto
termination
  by (relation "measure (\<lambda>(rides, i, totalSpent, os). length rides - i)") auto

declare viewRides_loop.simps [simp del]

definition viewRides :: "Rider \<Rightarrow> ostream \<Rightarrow> error + ostream" where
  "viewRides this os =
     (let os = (chain [put_str ''\<newline>=== RIDER RIDE HISTORY ==='', endl,
                       put_str ''Rider: '', put_str (Rider.name this), put_str '' (ID: '',
                       put_int (riderID this), put_str '')'', endl, put_str ''Total Rides: '',
                       put_size (length (requestedRides this)), endl]) os
      in case viewRides_loop (requestedRides this) 0 (dlit 0 10) os of
           Inl e \<Rightarrow> Inl e
         | Inr (totalSpent, os) \<Rightarrow>
             Inr ((chain [put_str ''\<newline>Total Amount Spent: $'', set_fixed, setprecision 2,
                          put_double totalSpent, endl]) os))"

definition Rider_getRideCount :: "Rider \<Rightarrow> nat" where
  "Rider_getRideCount this = length (requestedRides this)"

subsection \<open>The demonstration routine and \<^verbatim>\<open>main\<close>\<close>

fun demonstratePolymorphism_loop ::
    "Ride_ptr list \<Rightarrow> double \<Rightarrow> ostream \<Rightarrow> error + double \<times> ostream" where
  "demonstratePolymorphism_loop [] totalFares os = Inr (totalFares, os)"
| "demonstratePolymorphism_loop (None # rides) totalFares os = Inl NullPointerDereference"
| "demonstratePolymorphism_loop (Some ride # rides) totalFares os =
     demonstratePolymorphism_loop rides (dadd totalFares (fare ride))
       ((chain [put_str ''\<newline>--- '', put_str (getRideType ride),
                put_str '' Ride ---'', endl, rideDetails ride]) os)"

definition demonstratePolymorphism :: "Ride_ptr list \<Rightarrow> ostream \<Rightarrow> error + ostream" where
  "demonstratePolymorphism rides os =
     (let os = (chain [put_str ''\<newline>=== POLYMORPHISM DEMONSTRATION ==='', endl,
                       put_str ''Processing different ride types polymorphically:'', endl]) os
      in case demonstratePolymorphism_loop rides (dlit 0 10) os of
           Inl e \<Rightarrow> Inl e
         | Inr (totalFares, os) \<Rightarrow>
             Inr ((chain [put_str ''\<newline>Total Fares for All Rides: $'', set_fixed,
                          setprecision 2, put_double totalFares, endl]) os))"

definition main :: "error + int \<times> ostream" where
  "main =
     (let os = (chain [put_str ''=== RIDE SHARING SYSTEM - C++ IMPLEMENTATION ==='', endl,
                       put_str ''Demonstrating OOP Principles: Encapsulation, Inheritance, and Polymorphism'',
                       endl]) cout;
          standardRide1 = Some (new_StandardRide 1 ''Downtown'' ''Airport'' (dlit 155 10));
          premiumRide1 = Some (new_PremiumRide 2 ''Hotel'' ''Convention Center'' (dlit 82 10));
          standardRide2 = Some (new_StandardRide 3 ''Mall'' ''University'' (dlit 120 10));
          premiumRide2 = Some (new_PremiumRide 4 ''Airport'' ''Luxury Resort'' (dlit 258 10));
          driver1 = new_Driver 101 ''John Smith'' (dlit 48 10);
          driver2 = new_Driver 102 ''Sarah Johnson'' (dlit 49 10);
          rider1 = new_Rider 201 ''Alice Brown'';
          rider2 = new_Rider 202 ''Bob Wilson'';
          driver1 = addRide standardRide1 driver1;
          driver1 = addRide premiumRide1 driver1;
          driver2 = addRide standardRide2 driver2;
          driver2 = addRide premiumRide2 driver2;
          (rider1, os) = requestRide standardRide1 rider1 os;
          (rider1, os) = requestRide premiumRide2 rider1 os;
          (rider2, os) = requestRide premiumRide1 rider2 os;
          (rider2, os) = requestRide standardRide2 rider2 os;
          allRides = [standardRide1, premiumRide1, standardRide2, premiumRide2]
      in (case getDriverInfo driver1 os of Inl e \<Rightarrow> Inl e | Inr os \<Rightarrow>
         (case getDriverInfo driver2 os of Inl e \<Rightarrow> Inl e | Inr os \<Rightarrow>
         (case viewRides rider1 os of Inl e \<Rightarrow> Inl e | Inr os \<Rightarrow>
         (case viewRides rider2 os of Inl e \<Rightarrow> Inl e | Inr os \<Rightarrow>
         (case demonstratePolymorphism allRides os of Inl e \<Rightarrow> Inl e | Inr os \<Rightarrow>
          Inr (0, os)))))))"


section \<open>Evaluation and basic facts\<close>

text \<open>
  Closed terms are evaluated by the simplifier with these equations and the congruence
  rule \<open>let_weak_cong\<close>, which evaluates the bound value of a \<open>let\<close> before its body.
\<close>

lemmas double_eval =
  dlit_def round_nearest_even_def round_div_def floor_log2_def ndigits.simps with_sign_def
  dlt_def Let_def

lemmas text_eval =
  floor_log10_def strip_zeros_def round_div_def with_frac_def pad_digits_def show_nat.simps
  show_int_def digit_char_def sign_str_def

lemma sign_xor_commute: "(s = (\<not> t)) = (t = (\<not> s))"
  by auto

lemma round_nearest_even_not_nan [simp]: "round_nearest_even s N D \<noteq> NaN t"
  by (simp add: round_nearest_even_def Let_def)

lemma dlit_not_nan [simp]: "dlit a b \<noteq> NaN t" "\<not> is_nan (dlit a b)"
  by (simp_all add: dlit_def round_nearest_even_def Let_def)

text \<open>
  A product and a sum do not depend on the order of the operands, unless both are NaNs of
  different sign.
\<close>

lemma dmul_commute: "\<not> (is_nan x \<and> is_nan y) \<Longrightarrow> dmul x y = dmul y x"
  by (cases x; cases y) (auto simp: mult.commute add.commute sign_xor_commute)

lemma dmul_dlit_left: "dmul (dlit a b) d = dmul d (dlit a b)"
  by (rule dmul_commute) simp

lemma dmul_not_NaN_False:
  "x \<noteq> NaN False \<Longrightarrow> y \<noteq> NaN False \<Longrightarrow> dmul x y \<noteq> NaN False"
  by (cases x; cases y) auto

lemma dmul_dlit_not_NaN_False: "d \<noteq> NaN False \<Longrightarrow> dmul d (dlit a b) \<noteq> NaN False"
  by (rule dmul_not_NaN_False) simp_all

lemma dadd_commute: "x \<noteq> NaN False \<Longrightarrow> y \<noteq> NaN False \<Longrightarrow> dadd x y = dadd y x"
  by (cases x; cases y) (auto simp: Let_def min.commute add.commute conj_commute)

lemma dadd_not_NaN_False:
  "x \<noteq> NaN False \<Longrightarrow> y \<noteq> NaN False \<Longrightarrow> dadd x y \<noteq> NaN False"
  by (cases x; cases y) (auto simp: Let_def)

lemma foldl_dadd_not_NaN_False:
  "t \<noteq> NaN False \<Longrightarrow> \<forall>f\<in>set fs. f \<noteq> NaN False \<Longrightarrow> foldl dadd t fs \<noteq> NaN False"
  by (induction fs arbitrary: t) (simp_all add: dadd_not_NaN_False)


lemma fare_new_Ride:
  "fare (new_Ride ident pickup dropoff d) = dmul d (dlit 20 10)"
  by (simp add: new_Ride_def Ride_ctor_def Ride_fare_def)

lemma fare_new_StandardRide:
  "fare (new_StandardRide ident pickup dropoff d) = dmul d (dlit 20 10)"
  by (simp add: new_StandardRide_def Ride_ctor_def StandardRide_fare_def getDistance_def)

lemma fare_new_PremiumRide:
  "fare (new_PremiumRide ident pickup dropoff d) = dmul (dmul d (dlit 35 10)) (dlit 18 10)"
  by (simp add: new_PremiumRide_def Ride_ctor_def PremiumRide_fare_def getDistance_def)

lemma dlit_zero: "dlit 0 10 = Finite False 0 (- 1074)"
  by (simp add: dlit_def round_nearest_even_def)

subsection \<open>Rounding a number that is a double returns it\<close>

lemma ndigits_2_bounds:
  "0 < n \<Longrightarrow> 2 ^ (ndigits 2 n - 1) \<le> n \<and> n < 2 ^ ndigits 2 n"
proof (induction n rule: less_induct)
  case (less n)
  show ?case
  proof (cases "n div 2 = 0")
    case True
    with less.prems have "n = 1" by (simp add: div_eq_0_iff) 
    then show ?thesis by (simp add: ndigits.simps)
  next
    case False
    then have pos: "0 < n div 2" by simp
    have "n div 2 < n" using less.prems by simp
    from less.IH [OF this pos]
    have ih: "2 ^ (ndigits 2 (n div 2) - 1) \<le> n div 2" "n div 2 < 2 ^ ndigits 2 (n div 2)"
      by simp_all
    have nd: "ndigits 2 n = Suc (ndigits 2 (n div 2))"
      using less.prems by (subst ndigits.simps) simp
    have "0 < ndigits 2 (n div 2)"
      using pos by (subst ndigits.simps) simp
    then obtain k where k: "ndigits 2 (n div 2) = Suc k"
      by (cases "ndigits 2 (n div 2)") simp_all
    from ih k have "2 * 2 ^ k \<le> 2 * (n div 2)" by simp
    also have "\<dots> \<le> n" by simp
    finally have lo: "2 ^ (ndigits 2 n - 1) \<le> n" by (simp add: nd k)
    have "n < 2 * (n div 2) + 2" by presburger
    also have "\<dots> \<le> 2 * 2 ^ ndigits 2 (n div 2)" using ih(2) by simp
    finally have "n < 2 ^ ndigits 2 n" by (simp add: nd)
    with lo show ?thesis by simp
  qed
qed

lemma pow2_ratio: "(2::real) ^ nat k / 2 ^ nat (- k) = 2 powr (real_of_int k)"
proof (cases "0 \<le> k")
  case True
  then have "2 powr (real_of_int k) = 2 powr (real (nat k))" by simp
  also have "\<dots> = 2 ^ nat k"
    by (rule powr_realpow) simp
  finally show ?thesis using True by simp
next
  case False
  then have "2 powr (real_of_int k) = 2 powr (- real (nat (- k)))" by simp
  also have "\<dots> = 1 / 2 powr (real (nat (- k)))"
    by (rule powr_minus_divide)
  also have "2 powr (real (nat (- k))) = (2::real) ^ nat (- k)"
    by (rule powr_realpow) simp
  finally show ?thesis using False by simp
qed
lemma ndigits_2_real:
  assumes "0 < n"
  shows "2 powr (real (ndigits 2 n) - 1) \<le> real n" "real n < 2 powr (real (ndigits 2 n))"
proof -
  from ndigits_2_bounds [OF assms]
  have lo: "2 ^ (ndigits 2 n - 1) \<le> n" and hi: "n < 2 ^ ndigits 2 n" by simp_all
  have pos: "0 < ndigits 2 n" using assms by (subst ndigits.simps) simp
  have "real ((2::nat) ^ (ndigits 2 n - 1)) \<le> real n" using lo by (simp only: of_nat_le_iff)
  then have "2 powr (real (ndigits 2 n - 1)) \<le> real n"
    by (simp add: powr_realpow)
  then show "2 powr (real (ndigits 2 n) - 1) \<le> real n"
    using pos by (simp add: of_nat_diff)
  have "real n < real ((2::nat) ^ ndigits 2 n)" using hi by (simp only: of_nat_less_iff)
  then show "real n < 2 powr (real (ndigits 2 n))"
    by (simp add: powr_realpow)
qed


lemma cross_le_iff:
  assumes "0 < D"
  shows "(D * 2 ^ nat k \<le> N * 2 ^ nat (- k)) = (2 powr (real_of_int k) \<le> real N / real D)"
proof -
  have "(D * 2 ^ nat k \<le> N * 2 ^ nat (- k)) = (real (D * 2 ^ nat k) \<le> real (N * 2 ^ nat (- k)))"
    by (simp only: of_nat_le_iff)
  also have "\<dots> = (real D * 2 ^ nat k \<le> real N * 2 ^ nat (- k))"
    by simp
  also have "\<dots> = (2 ^ nat k / 2 ^ nat (- k) \<le> real N / real D)"
    using assms by (simp add: field_simps)
  finally show ?thesis by (simp only: pow2_ratio)
qed

lemma floor_log2_bounds:
  assumes "0 < N" "0 < D"
  shows "2 powr (real_of_int (floor_log2 N D)) \<le> real N / real D"
    and "real N / real D < 2 powr (real_of_int (floor_log2 N D) + 1)"
proof -
  define t where "t = int (ndigits 2 N) - int (ndigits 2 D)"
  have N: "2 powr (real (ndigits 2 N) - 1) \<le> real N" "real N < 2 powr (real (ndigits 2 N))"
    using ndigits_2_real [OF assms(1)] by simp_all
  have D: "2 powr (real (ndigits 2 D) - 1) \<le> real D" "real D < 2 powr (real (ndigits 2 D))"
    using ndigits_2_real [OF assms(2)] by simp_all
  have Dpos: "0 < real D" using assms by simp
  have "real N / real D < 2 powr (real (ndigits 2 N)) / 2 powr (real (ndigits 2 D) - 1)"
    using N(2) D(1) Dpos by (intro frac_less) simp_all
  then have hi: "real N / real D < 2 powr (real_of_int t + 1)"
    by (simp add: t_def powr_diff [symmetric] algebra_simps)
  have "2 powr (real (ndigits 2 N) - 1) / 2 powr (real (ndigits 2 D)) < real N / real D"
    using N(1) D(2) Dpos assms by (intro frac_less2) simp_all
  then have lo: "2 powr (real_of_int t - 1) < real N / real D"
    by (simp add: t_def powr_diff [symmetric] algebra_simps)
  have fl: "floor_log2 N D = (if 2 powr (real_of_int t) \<le> real N / real D then t else t - 1)"
    unfolding floor_log2_def t_def [symmetric] Let_def cross_le_iff [OF assms(2)] ..
  show "2 powr (real_of_int (floor_log2 N D)) \<le> real N / real D"
    using lo by (simp add: fl)
  show "real N / real D < 2 powr (real_of_int (floor_log2 N D) + 1)"
    using hi by (auto simp add: fl not_le)
qed

lemma powr_int_less_cancel:
  assumes "2 powr (real_of_int a) \<le> x" "x < 2 powr (real_of_int b)"
  shows "a < b"
proof -
  from assms have "(2::real) powr (real_of_int a) < 2 powr (real_of_int b)"
    by (rule le_less_trans)
  then show "a < b" by simp
qed

lemma powr_shift: "(2::real) ^ k * 2 powr (real_of_int f) = 2 powr (real_of_int (f + int k))"
proof -
  have "2 powr (real_of_int (f + int k)) = 2 powr (real_of_int f) * 2 powr (real k)"
    by (simp add: powr_add)
  also have "2 powr (real k) = (2::real) ^ k"
    by (rule powr_realpow) simp
  finally show ?thesis by simp
qed

lemma round_nearest_even_exact:
  assumes can: "is_double (Finite s n f)" and npos: "0 < n" and Dpos: "0 < D"
    and val: "real N / real D = real n * 2 powr (real_of_int f)"
  shows "round_nearest_even s N D = Finite s n f"
proof -
  have xpos: "0 < real N / real D" using npos by (simp add: val)
  then have Npos: "0 < N" using Dpos by (cases "N = 0") simp_all
  note fl = floor_log2_bounds [OF Npos Dpos]
  from can have n53: "n < 2 ^ 53" and f_lo: "- 1074 \<le> f" and f_hi: "f \<le> 971"
    and norm: "2 ^ 52 \<le> n \<or> f = - 1074" by simp_all
  have "real n < real ((2::nat) ^ 53)" using n53 by (simp only: of_nat_less_iff)
  then have "real n < 2 ^ 53" by simp
  then have "real n * 2 powr (real_of_int f) < 2 ^ 53 * 2 powr (real_of_int f)"
    by (simp only: mult_less_cancel_right_pos powr_gt_zero zero_less_numeral)
  also have "\<dots> = 2 powr (real_of_int (f + 53))"
    by (simp only: powr_shift of_nat_numeral)
  finally have x_hi: "real N / real D < 2 powr (real_of_int (f + 53))"
    by (simp only: val)
  from powr_int_less_cancel [OF fl(1) x_hi] have fl_hi: "floor_log2 N D < f + 53" .
  have e_eq: "max (floor_log2 N D - 52) (- 1074) = f"
  proof (cases "2 ^ 52 \<le> n")
    case True
    then have "real ((2::nat) ^ 52) \<le> real n" by (simp only: of_nat_le_iff)
    then have "2 ^ 52 \<le> real n" by simp
    then have "2 ^ 52 * 2 powr (real_of_int f) \<le> real n * 2 powr (real_of_int f)"
      by (simp only: mult_le_cancel_right_pos powr_gt_zero zero_less_numeral)
    then have x_lo: "2 powr (real_of_int (f + 52)) \<le> real N / real D"
      by (simp only: val powr_shift of_nat_numeral)
    have "real N / real D < 2 powr (real_of_int (floor_log2 N D + 1))"
      using fl(2) by simp
    from powr_int_less_cancel [OF x_lo this] have "f + 52 < floor_log2 N D + 1" .
    with fl_hi f_lo show ?thesis by simp
  next
    case False
    with norm have f: "f = - 1074" by simp
    from False have "n < 2 ^ 52" by simp
    then have "real n < real ((2::nat) ^ 52)" by (simp only: of_nat_less_iff)
    then have "real n < 2 ^ 52" by simp
    then have "real n * 2 powr (real_of_int f) < 2 ^ 52 * 2 powr (real_of_int f)"
      by (simp only: mult_less_cancel_right_pos powr_gt_zero zero_less_numeral)
    then have "real N / real D < 2 powr (real_of_int (f + 52))"
      by (simp only: val powr_shift of_nat_numeral)
    from powr_int_less_cancel [OF fl(1) this] have "floor_log2 N D < f + 52" .
    then show ?thesis by (simp add: f)
  qed
  define num where "num = N * 2 ^ nat (- f)"
  define den where "den = D * 2 ^ nat f"
  have den_pos: "0 < den" using Dpos by (simp add: den_def)
  have "real num / real den = (real N / real D) * (2 ^ nat (- f) / 2 ^ nat (- (- f)))"
    by (simp add: num_def den_def)
  also have "\<dots> = (real N / real D) * 2 powr (real_of_int (- f))"
    by (simp only: pow2_ratio)
  also have "\<dots> = real n * (2 powr (real_of_int f) * 2 powr (real_of_int (- f)))"
    by (simp add: val)
  also have "\<dots> = real n"
    by (simp add: powr_add [symmetric])
  finally have "real num = real n * real den"
    using den_pos by (simp add: field_simps)
  then have "real num = real (n * den)" by simp
  then have num_eq: "num = n * den" by (simp only: of_nat_eq_iff)
  have "round_div num den = n"
    using den_pos by (simp add: round_div_def num_eq)
  then show ?thesis
    unfolding round_nearest_even_def Let_def e_eq num_def [symmetric] den_def [symmetric]
    using Npos n53 f_hi by simp
qed


lemma scaled_valof:
  assumes "k \<le> e"
  shows "real_of_int (with_sign s m * 2 ^ nat (e - k)) * 2 powr (real_of_int k) =
         valof (Finite s m e)"
proof -
  have "(2::real) ^ nat (e - k) * 2 powr (real_of_int k) = 2 powr (real_of_int (k + int (nat (e - k))))"
    by (rule powr_shift)
  also have "k + int (nat (e - k)) = e" using assms by simp
  finally show ?thesis by (simp add: mult.assoc)
qed

lemma dadd_exact:
  assumes can: "is_double (Finite u p g)" and ppos: "0 < p"
    and val: "valof (Finite s m e) + valof (Finite t n f) = valof (Finite u p g)"
  shows "dadd (Finite s m e) (Finite t n f) = Finite u p g"
proof -
  define k where "k = min e f"
  define c where "c = with_sign s m * 2 ^ nat (e - k) + with_sign t n * 2 ^ nat (f - k)"
  have "real_of_int c * 2 powr (real_of_int k) =
        valof (Finite s m e) + valof (Finite t n f)"
    unfolding c_def of_int_add distrib_right
    by (simp only: scaled_valof k_def min.cobounded1 min.cobounded2)
  then have cv: "real_of_int c * 2 powr (real_of_int k) = valof (Finite u p g)"
    by (simp only: val)
  have sgn: "(c < 0) = u" and c0: "c \<noteq> 0"
  proof -
    have pos: "0 < real p * 2 powr (real_of_int g)" using ppos by simp
    show "(c < 0) = u"
    proof (cases u)
      case True
      with cv pos have "real_of_int c * 2 powr (real_of_int k) < 0"
        by (simp add: with_sign_def)
      then have "real_of_int c < 0" by (simp add: mult_less_0_iff)
      with True show ?thesis by simp
    next
      case False
      with cv pos have "0 < real_of_int c * 2 powr (real_of_int k)"
        by (simp add: with_sign_def)
      then have "0 < real_of_int c" by (simp add: zero_less_mult_iff)
      with False show ?thesis by simp
    qed
    show "c \<noteq> 0"
    proof
      assume "c = 0"
      with cv pos show False by (simp add: with_sign_def split: if_splits)
    qed
  qed
  have "real (nat \<bar>c\<bar> * 2 ^ nat k) / real (2 ^ nat (- k)) =
        real_of_int \<bar>c\<bar> * (2 ^ nat k / 2 ^ nat (- k))"
    by simp
  also have "\<dots> = \<bar>real_of_int c * 2 powr (real_of_int k)\<bar>"
    by (simp only: pow2_ratio abs_mult of_int_abs) simp
  also have "\<dots> = real p * 2 powr (real_of_int g)"
    by (simp add: cv with_sign_def abs_mult)
  finally have "round_nearest_even u (nat \<bar>c\<bar> * 2 ^ nat k) (2 ^ nat (- k)) = Finite u p g"
    by (intro round_nearest_even_exact [OF can ppos]) simp_all
  then show ?thesis
    using c0 sgn by (simp add: Let_def k_def [symmetric] c_def [symmetric])
qed

lemma dadd_zero_left:
  assumes "is_double y" "y \<noteq> Finite True 0 (- 1074)"
  shows "dadd (Finite False 0 (- 1074)) y = y"
proof (cases y)
  case (Finite t n f)
  show ?thesis
  proof (cases "n = 0")
    case True
    with assms Finite have "f = - 1074" "\<not> t" by auto
    with True Finite show ?thesis by (simp add: with_sign_def)
  next
    case False
    then have "dadd (Finite False 0 (- 1074)) (Finite t n f) = Finite t n f"
      using assms(1) Finite by (intro dadd_exact) (simp_all add: with_sign_def)
    with Finite show ?thesis by simp
  qed
qed simp_all


subsection \<open>Every result is a double, within half a unit in the last place\<close>

lemma round_div_nearest:
  assumes "0 < b"
  shows "\<bar>real (round_div a b) - real a / real b\<bar> \<le> 1 / 2"
proof -
  define q r where "q = a div b" and "r = a mod b"
  have a: "real a = real q * real b + real r"
    unfolding q_def r_def by (metis div_mult_mod_eq of_nat_add of_nat_mult)
  have r: "r < b" unfolding r_def using assms by simp
  have bpos: "0 < real b" using assms by simp
  have frac: "real a / real b = real q + real r / real b"
    using bpos by (simp add: a field_simps)
  show ?thesis
  proof (cases "b < 2 * r \<or> (2 * r = b \<and> odd q)")
    case True
    then have up: "round_div a b = q + 1"
      by (simp add: round_div_def q_def r_def Let_def)
    from True have "real b \<le> 2 * real r"
      by (metis less_imp_le_nat of_nat_le_iff of_nat_mult of_nat_numeral order_refl)
    then have "1 / 2 \<le> real r / real b" using bpos by (simp add: field_simps)
    moreover have "real r / real b < 1" using r bpos by simp
    ultimately show ?thesis by (simp add: up frac)
  next
    case False
    then have down: "round_div a b = q"
      by (simp add: round_div_def q_def r_def Let_def)
    from False have "2 * r \<le> b" by auto
    then have "2 * real r \<le> real b"
      by (metis of_nat_le_iff of_nat_mult of_nat_numeral)
    then have "real r / real b \<le> 1 / 2" using bpos by (simp add: field_simps)
    then show ?thesis by (simp add: down frac)
  qed
qed

lemma scaled_quotient:
  assumes "0 < D"
  shows "real (N * 2 ^ nat (- e)) / real (D * 2 ^ nat e) =
         (real N / real D) * 2 powr (real_of_int (- e))"
proof -
  have "real (N * 2 ^ nat (- e)) / real (D * 2 ^ nat e) =
        (real N / real D) * (2 ^ nat (- e) / 2 ^ nat (- (- e)))"
    by simp
  then show ?thesis by (simp only: pow2_ratio)
qed

lemma round_nearest_even_core:
  assumes Npos: "0 < N" and Dpos: "0 < D"
  defines "e \<equiv> max (floor_log2 N D - 52) (- 1074)"
  defines "m \<equiv> round_div (N * 2 ^ nat (- e)) (D * 2 ^ nat e)"
  shows "\<bar>real m - (real N / real D) * 2 powr (real_of_int (- e))\<bar> \<le> 1 / 2"
    and "m \<le> 2 ^ 53"
    and "- 1074 \<le> floor_log2 N D - 52 \<Longrightarrow> 2 ^ 52 \<le> m"
proof -
  define y where "y = (real N / real D) * 2 powr (real_of_int (- e))"
  note fl = floor_log2_bounds [OF Npos Dpos]
  have "0 < D * 2 ^ nat e" using Dpos by simp
  from round_div_nearest [OF this, of "N * 2 ^ nat (- e)"]
  show near: "\<bar>real m - (real N / real D) * 2 powr (real_of_int (- e))\<bar> \<le> 1 / 2"
    by (simp only: m_def scaled_quotient [OF Dpos])
  have "(2::real) powr (real_of_int (floor_log2 N D) + 1) \<le> 2 powr (real_of_int (e + 53))"
    by (rule powr_mono) (simp_all add: e_def)
  with fl(2) have "real N / real D < 2 powr (real_of_int (e + 53))"
    by (rule less_le_trans)
  then have "y < 2 powr (real_of_int (e + 53)) * 2 powr (real_of_int (- e))"
    unfolding y_def by (simp only: mult_less_cancel_right_pos powr_gt_zero)
  also have "\<dots> = 2 powr 53" by (simp add: powr_add [symmetric])
  also have "\<dots> = 2 ^ 53" by simp
  finally have "y < 2 ^ 53" .
  moreover have near_y: "\<bar>real m - y\<bar> \<le> 1 / 2"
    using near by (simp only: y_def)
  ultimately have "real m < 2 ^ 53 + 1" by linarith
  then have "real m < real (2 ^ 53 + 1)" by simp
  then have "m < 2 ^ 53 + 1" by (simp only: of_nat_less_iff)
  then show "m \<le> 2 ^ 53" by simp
  show "2 ^ 52 \<le> m" if "- 1074 \<le> floor_log2 N D - 52"
  proof -
    from that have e: "e = floor_log2 N D - 52" by (simp add: e_def)
    have "2 powr (real_of_int (floor_log2 N D)) * 2 powr (real_of_int (- e)) \<le> y"
      unfolding y_def using fl(1) by (simp only: mult_le_cancel_right_pos powr_gt_zero)
    moreover have "2 powr (real_of_int (floor_log2 N D)) * 2 powr (real_of_int (- e)) = 2 powr 52"
      by (simp add: powr_add [symmetric] e)
    moreover have "(2::real) powr 52 = 2 ^ 52" by simp
    ultimately have "2 ^ 52 \<le> y" by simp
    with near_y have "2 ^ 52 - 1 < real m" by linarith
    then have "real (2 ^ 52 - 1) < real m" by simp
    then have "2 ^ 52 - 1 < m" by (simp only: of_nat_less_iff)
    then show ?thesis by simp
  qed
qed

lemma round_nearest_even_is_double:
  assumes "0 < D"
  shows "is_double (round_nearest_even s N D)"
proof (cases "N = 0")
  case True
  then show ?thesis by (simp add: round_nearest_even_def)
next
  case False
  then have Npos: "0 < N" by simp
  define e where "e = max (floor_log2 N D - 52) (- 1074)"
  define m where "m = round_div (N * 2 ^ nat (- e)) (D * 2 ^ nat e)"
  note core = round_nearest_even_core [OF Npos assms, folded e_def m_def]
  have e_lo: "- 1074 \<le> e" by (simp add: e_def)
  have norm: "2 ^ 52 \<le> m \<or> e = - 1074"
  proof (cases "- 1074 \<le> floor_log2 N D - 52")
    case True
    then show ?thesis using core(3) by simp
  next
    case False
    then show ?thesis by (simp add: e_def)
  qed
  have res: "round_nearest_even s N D =
      (if 971 < (if m = 2 ^ 53 then e + 1 else e) then Infinity s
       else Finite s (if m = 2 ^ 53 then 2 ^ 52 else m) (if m = 2 ^ 53 then e + 1 else e))"
    unfolding round_nearest_even_def Let_def e_def [symmetric] m_def [symmetric]
    using False by simp
  show ?thesis
    unfolding res using core(2) e_lo norm by auto
qed

lemma round_nearest_even_normal:
  assumes Dpos: "0 < D"
    and lo: "2 powr (- 1022) \<le> real N / real D"
    and hi: "real N / real D < 2 powr 1023"
  shows "\<exists>m e. round_nearest_even s N D = Finite s m e \<and> is_double (Finite s m e) \<and>
           \<bar>real m * 2 powr (real_of_int e) - real N / real D\<bar>
             \<le> (real N / real D) * 2 powr (- 53)"
proof -
  have "0 < real N / real D"
    using lo by (rule less_le_trans [rotated]) simp
  then have Npos: "0 < N" using Dpos by (cases "N = 0") simp_all
  note fl = floor_log2_bounds [OF Npos Dpos]
  define e where "e = max (floor_log2 N D - 52) (- 1074)"
  define m where "m = round_div (N * 2 ^ nat (- e)) (D * 2 ^ nat e)"
  note core = round_nearest_even_core [OF Npos Dpos, folded e_def m_def]
  have "(2::real) powr (real_of_int (- 1022)) \<le> real N / real D" using lo by simp
  moreover have "real N / real D < 2 powr (real_of_int (floor_log2 N D + 1))"
    using fl(2) by simp
  ultimately have "- 1022 < floor_log2 N D + 1" by (rule powr_int_less_cancel)
  then have e: "e = floor_log2 N D - 52" by (simp add: e_def)
  have "real N / real D < 2 powr (real_of_int 1023)" using hi by simp
  from powr_int_less_cancel [OF fl(1) this] have "e \<le> 970" by (simp add: e)
  define m' where "m' = (if m = 2 ^ 53 then 2 ^ 52 else m)"
  define e' where "e' = (if m = 2 ^ 53 then e + 1 else e)"
  have "round_nearest_even s N D = (if 971 < e' then Infinity s else Finite s m' e')"
    unfolding round_nearest_even_def Let_def e_def [symmetric] m_def [symmetric]
      m'_def [symmetric] e'_def [symmetric]
    using Npos by simp
  moreover have "e' \<le> 971" using \<open>e \<le> 970\<close> by (simp add: e'_def)
  ultimately have res: "round_nearest_even s N D = Finite s m' e'" by simp
  have same: "real m' * 2 powr (real_of_int e') = real m * 2 powr (real_of_int e)"
  proof (cases "m = 2 ^ 53")
    case True
    have "(2::real) ^ 52 * 2 powr (real_of_int (e + 1)) = 2 ^ 52 * (2 powr (real_of_int e) * 2)"
      by (simp add: powr_add)
    then show ?thesis by (simp add: m'_def e'_def True)
  next
    case False
    then show ?thesis by (simp add: m'_def e'_def)
  qed
  have split: "real m * 2 powr (real_of_int e) - real N / real D =
      (real m - (real N / real D) * 2 powr (real_of_int (- e))) * 2 powr (real_of_int e)"
    by (simp add: algebra_simps powr_add [symmetric])
  have "\<bar>real m * 2 powr (real_of_int e) - real N / real D\<bar> \<le> 1 / 2 * 2 powr (real_of_int e)"
    unfolding split abs_mult using core(1) by (simp add: mult_right_mono)
  also have "\<dots> = 2 powr (real_of_int (floor_log2 N D)) * 2 powr (- 53)"
    by (simp add: e powr_diff powr_minus_divide)
  also have "\<dots> \<le> (real N / real D) * 2 powr (- 53)"
    using fl(1) by (simp only: mult_le_cancel_right_pos powr_gt_zero)
  finally have err: "\<bar>real m' * 2 powr (real_of_int e') - real N / real D\<bar>
      \<le> (real N / real D) * 2 powr (- 53)"
    by (simp only: same)
  have "is_double (Finite s m' e')"
    using round_nearest_even_is_double [OF Dpos, of s N] by (simp only: res)
  with res err show ?thesis by blast
qed

lemma dmul_is_double: "is_double (dmul x y)"
  by (cases x; cases y) (simp_all add: round_nearest_even_is_double)

lemma dadd_is_double: "is_double (dadd x y)"
  by (cases x; cases y) (simp_all add: round_nearest_even_is_double Let_def)

lemma valof_product:
  "valof (Finite s m e) * valof (Finite t n f) =
     (if s \<noteq> t then - 1 else 1) *
     (real (m * n * 2 ^ nat (e + f)) / real (2 ^ nat (- (e + f))))"
proof -
  have "real (m * n * 2 ^ nat (e + f)) / real (2 ^ nat (- (e + f))) =
        real m * real n * (2 ^ nat (e + f) / 2 ^ nat (- (e + f)))"
    by simp
  also have "\<dots> = real m * real n * 2 powr (real_of_int (e + f))"
    by (simp only: pow2_ratio)
  finally show ?thesis
    by (simp add: with_sign_def powr_add)
qed

lemma dmul_normal:
  assumes lo: "2 powr (- 1022) \<le> \<bar>valof (Finite s m e) * valof (Finite t n f)\<bar>"
    and hi: "\<bar>valof (Finite s m e) * valof (Finite t n f)\<bar> < 2 powr 1023"
  shows "\<exists>p g. dmul (Finite s m e) (Finite t n f) = Finite (s \<noteq> t) p g \<and>
           is_double (Finite (s \<noteq> t) p g) \<and>
           \<bar>valof (Finite (s \<noteq> t) p g) - valof (Finite s m e) * valof (Finite t n f)\<bar>
             \<le> \<bar>valof (Finite s m e) * valof (Finite t n f)\<bar> * 2 powr (- 53)"
proof -
  define N where "N = m * n * 2 ^ nat (e + f)"
  define D :: nat where "D = 2 ^ nat (- (e + f))"
  define sg :: real where "sg = (if s \<noteq> t then - 1 else 1)"
  have Dpos: "0 < D" by (simp add: D_def)
  have prod: "valof (Finite s m e) * valof (Finite t n f) = sg * (real N / real D)"
    unfolding N_def D_def sg_def by (rule valof_product)
  have sg: "\<bar>sg\<bar> = 1" by (simp add: sg_def)
  have "\<bar>sg * (real N / real D)\<bar> = \<bar>sg\<bar> * \<bar>real N / real D\<bar>"
    by (rule abs_mult)
  also have "\<dots> = real N / real D" by (simp add: sg)
  finally have abs_prod: "\<bar>valof (Finite s m e) * valof (Finite t n f)\<bar> = real N / real D"
    by (simp only: prod)
  from round_nearest_even_normal [OF Dpos, of N "s \<noteq> t"] lo hi
  obtain p g where res: "round_nearest_even (s \<noteq> t) N D = Finite (s \<noteq> t) p g"
    and can: "is_double (Finite (s \<noteq> t) p g)"
    and err: "\<bar>real p * 2 powr (real_of_int g) - real N / real D\<bar>
                \<le> (real N / real D) * 2 powr (- 53)"
    unfolding abs_prod by blast
  have "valof (Finite (s \<noteq> t) p g) = sg * (real p * 2 powr (real_of_int g))"
    by (simp add: with_sign_def sg_def)
  then have "\<bar>valof (Finite (s \<noteq> t) p g) - valof (Finite s m e) * valof (Finite t n f)\<bar> =
             \<bar>sg * (real p * 2 powr (real_of_int g) - real N / real D)\<bar>"
    by (simp only: prod right_diff_distrib)
  also have "\<dots> = \<bar>real p * 2 powr (real_of_int g) - real N / real D\<bar>"
    by (simp only: abs_mult sg mult_1)
  finally have "\<bar>valof (Finite (s \<noteq> t) p g) - valof (Finite s m e) * valof (Finite t n f)\<bar>
      \<le> \<bar>valof (Finite s m e) * valof (Finite t n f)\<bar> * 2 powr (- 53)"
    using err by (simp only: abs_prod)
  moreover have "dmul (Finite s m e) (Finite t n f) = Finite (s \<noteq> t) p g"
    using res by (simp add: N_def D_def)
  ultimately show ?thesis using can by blast
qed

lemma dmul_exact:
  assumes can: "is_double (Finite (s \<noteq> t) p g)" and ppos: "0 < p"
    and val: "valof (Finite s m e) * valof (Finite t n f) = valof (Finite (s \<noteq> t) p g)"
  shows "dmul (Finite s m e) (Finite t n f) = Finite (s \<noteq> t) p g"
proof -
  define N where "N = m * n * 2 ^ nat (e + f)"
  define D :: nat where "D = 2 ^ nat (- (e + f))"
  define sg :: real where "sg = (if s \<noteq> t then - 1 else 1)"
  have Dpos: "0 < D" by (simp add: D_def)
  have "sg * (real N / real D) = valof (Finite s m e) * valof (Finite t n f)"
    unfolding N_def D_def sg_def by (rule valof_product [symmetric])
  also have "\<dots> = sg * (real p * 2 powr (real_of_int g))"
    unfolding val by (simp add: with_sign_def sg_def)
  finally have "real N / real D = real p * 2 powr (real_of_int g)"
    by (simp add: sg_def split: if_splits)
  with can ppos Dpos have "round_nearest_even (s \<noteq> t) N D = Finite (s \<noteq> t) p g"
    by (intro round_nearest_even_exact)
  then show ?thesis by (simp add: N_def D_def)
qed



subsection \<open>What the stream operations do to the text and to the format state\<close>

lemma put_str_simps [simp]:
  "buffer (put_str s os) = buffer os @ s"
  "floatfield_fixed (put_str s os) = floatfield_fixed os"
  "precision (put_str s os) = precision os"
  by (simp_all add: put_str_def)

lemma endl_simps [simp]:
  "buffer (endl os) = buffer os @ ''\<newline>''"
  "floatfield_fixed (endl os) = floatfield_fixed os"
  "precision (endl os) = precision os"
  by (simp_all add: endl_def)

lemma put_int_simps [simp]:
  "buffer (put_int i os) = buffer os @ show_int (sint i)"
  "floatfield_fixed (put_int i os) = floatfield_fixed os"
  "precision (put_int i os) = precision os"
  by (simp_all add: put_int_def)

lemma put_size_simps [simp]:
  "buffer (put_size n os) = buffer os @ show_nat n"
  "floatfield_fixed (put_size n os) = floatfield_fixed os"
  "precision (put_size n os) = precision os"
  by (simp_all add: put_size_def)

lemma put_double_simps [simp]:
  "buffer (put_double d os) = buffer os @ fmt_double os d"
  "floatfield_fixed (put_double d os) = floatfield_fixed os"
  "precision (put_double d os) = precision os"
  by (simp_all add: put_double_def)

lemma set_fixed_simps [simp]:
  "buffer (set_fixed os) = buffer os"
  "floatfield_fixed (set_fixed os) = True"
  "precision (set_fixed os) = precision os"
  by (simp_all add: set_fixed_def)

lemma setprecision_simps [simp]:
  "buffer (setprecision n os) = buffer os"
  "floatfield_fixed (setprecision n os) = floatfield_fixed os"
  "precision (setprecision n os) = n"
  by (simp_all add: setprecision_def)

lemma fmt_double_unchanged [simp]:
  "fmt_double (put_str s os) d = fmt_double os d"
  "fmt_double (endl os) d = fmt_double os d"
  "fmt_double (put_int i os) d = fmt_double os d"
  "fmt_double (put_size n os) d = fmt_double os d"
  "fmt_double (put_double d' os) d = fmt_double os d"
  by (simp_all add: fmt_double_def)

lemma fmt_double_cong:
  "floatfield_fixed os = floatfield_fixed os' \<Longrightarrow> precision os = precision os' \<Longrightarrow>
   fmt_double os d = fmt_double os' d"
  by (simp add: fmt_double_def)

lemma fmt_double_fixed:
  "floatfield_fixed os \<Longrightarrow> fmt_double os d = fmt_fixed (precision os) d"
  by (simp add: fmt_double_def)

lemma Ride_rideDetails_buffer:
  "buffer (Ride_rideDetails r os) = buffer os @ shared_fields r os @ fare_line (fare r)"
  by (simp add: Ride_rideDetails_def shared_fields_def fare_line_def fmt_double_fixed
      getRideID_def getPickupLocation_def getDropoffLocation_def getDistance_def)

lemma Ride_rideDetails_state [simp]:
  "floatfield_fixed (Ride_rideDetails r os) = True"
  "precision (Ride_rideDetails r os) = 2"
  by (simp_all add: Ride_rideDetails_def)

lemma fmt_luxuryMultiplier: "fmt_fixed 2 (dlit 18 10) = ''1.80''"
  by (simp add: double_eval text_eval cong: let_weak_cong)

lemma rideDetails_buffer: "\<exists>text. buffer (rideDetails r os) = buffer os @ text"
  by (cases r) (simp_all add: PremiumRide_rideDetails_def Ride_rideDetails_buffer)

subsection \<open>The loops over the stored rides\<close>

lemma getDriverInfo_loop_Some:
  "getDriverInfo_loop (map Some rides) t = Inr (foldl dadd t (map fare rides))"
  by (induction rides arbitrary: t) simp_all

lemma getDriverInfo_loop_None:
  "None \<in> set ps \<Longrightarrow> getDriverInfo_loop ps t = Inl NullPointerDereference"
  by (induction ps t rule: getDriverInfo_loop.induct) simp_all

lemma no_null_pointers: "None \<notin> set ps \<Longrightarrow> ps = map Some (map the ps)"
  by (induction ps) auto


lemma driver_fields_fold_addRide [simp]:
  "driverID (fold addRide ps this) = driverID this"
  "Driver.name (fold addRide ps this) = Driver.name this"
  "rating (fold addRide ps this) = rating this"
  by (induction ps arbitrary: this) (simp_all add: addRide_def)

lemma getDriverInfo_text:
  assumes "assignedRides this = map Some rides"
  shows "map_sum id buffer (getDriverInfo this os) =
    Inr (buffer os @ ''\<newline>=== DRIVER INFORMATION ===\<newline>'' @
      ''Driver ID: '' @ show_int (sint (driverID this)) @ ''\<newline>'' @
      ''Name: '' @ Driver.name this @ ''\<newline>'' @
      ''Rating: '' @ fmt_double os (rating this) @ ''/5.0\<newline>'' @
      ''Total Rides Completed: '' @ show_nat (length rides) @ ''\<newline>'' @
      ''Total Earnings: $'' @ fmt_fixed 2 (foldl dadd (dlit 0 10) (map fare rides)) @ ''\<newline>'')"
  by (simp add: getDriverInfo_def assms getDriverInfo_loop_Some fmt_double_fixed)

lemma map_sum_buffer_Inr:
  "map_sum id buffer r = Inr text \<Longrightarrow> \<exists>os'. r = Inr os' \<and> buffer os' = text"
  by (cases r) auto

lemma viewRides_loop_Some:
  "\<exists>os' body. viewRides_loop (map Some rides) i t os =
       Inr (foldl dadd t (map fare (drop i rides)), os') \<and>
     buffer os' = buffer os @ body"
proof (induction "length rides - i" arbitrary: i t os)
  case 0
  then show ?case by (simp add: viewRides_loop.simps)
next
  case (Suc n)
  then have less: "i < length rides" and n: "n = length rides - (i + 1)" by simp_all
  let ?os = "chain [put_str ''\<newline>--- Ride '', put_size (i + 1), put_str '' ---'', endl,
                    rideDetails (rides ! i)] os"
  from Suc.hyps(1) [OF n, of "dadd t (fare (rides ! i))" ?os]
  obtain os' body where
    run: "viewRides_loop (map Some rides) (i + 1) (dadd t (fare (rides ! i))) ?os =
          Inr (foldl dadd (dadd t (fare (rides ! i))) (map fare (drop (i + 1) rides)), os')"
    and buf: "buffer os' = buffer ?os @ body"
    by blast
  obtain details where "buffer ?os = buffer os @ details"
    using rideDetails_buffer
      [of "rides ! i" "chain [put_str ''\<newline>--- Ride '', put_size (i + 1), put_str '' ---'', endl] os"]
    by auto
  with buf have "buffer os' = buffer os @ (details @ body)" by simp
  moreover have "drop i rides = rides ! i # drop (i + 1) rides"
    using less by (simp add: Cons_nth_drop_Suc)
  ultimately show ?case
    using less run by (subst viewRides_loop.simps) auto
qed

lemma viewRides_loop_None:
  "i \<le> j \<Longrightarrow> j < length ps \<Longrightarrow> ps ! j = None \<Longrightarrow>
   viewRides_loop ps i t os = Inl NullPointerDereference"
proof (induction "j - i" arbitrary: i t os)
  case 0
  then show ?case by (subst viewRides_loop.simps) simp
next
  case (Suc n)
  then have "i < length ps" "i + 1 \<le> j" "n = j - (i + 1)" by simp_all
  with Suc show ?case
    by (subst viewRides_loop.simps) (simp split: option.split)
qed

lemma demonstratePolymorphism_loop_Some:
  "\<exists>os' body. demonstratePolymorphism_loop (map Some rides) t os =
       Inr (foldl dadd t (map fare rides), os') \<and>
     buffer os' = buffer os @ body"
proof (induction rides arbitrary: t os)
  case Nil
  then show ?case by simp
next
  case (Cons r rides)
  let ?os = "chain [put_str ''\<newline>--- '', put_str (getRideType r), put_str '' Ride ---'', endl,
                    rideDetails r] os"
  from Cons [of "dadd t (fare r)" ?os] obtain os' body where
    run: "demonstratePolymorphism_loop (map Some rides) (dadd t (fare r)) ?os =
          Inr (foldl dadd (dadd t (fare r)) (map fare rides), os')"
    and buf: "buffer os' = buffer ?os @ body"
    by blast
  obtain details where "buffer ?os = buffer os @ details"
    using rideDetails_buffer
      [of r "chain [put_str ''\<newline>--- '', put_str (getRideType r), put_str '' Ride ---'', endl] os"]
    by auto
  with buf have "buffer os' = buffer os @ (details @ body)" by simp
  with run show ?case by auto
qed

lemma demonstratePolymorphism_loop_None:
  "None \<in> set ps \<Longrightarrow> demonstratePolymorphism_loop ps t os = Inl NullPointerDereference"
  by (induction ps t os rule: demonstratePolymorphism_loop.induct) simp_all


lemma viewRides_text:
  assumes "requestedRides this = map Some rides"
  shows "\<exists>os' body. viewRides this os = Inr os' \<and>
    buffer os' = buffer os @ ''\<newline>=== RIDER RIDE HISTORY ===\<newline>'' @
      ''Rider: '' @ Rider.name this @ '' (ID: '' @ show_int (sint (riderID this)) @ '')\<newline>'' @
      ''Total Rides: '' @ show_nat (length rides) @ ''\<newline>'' @ body @
      ''\<newline>Total Amount Spent: $'' @
        fmt_fixed 2 (foldl dadd (dlit 0 10) (map fare rides)) @ ''\<newline>''"
proof -
  let ?os = "chain [put_str ''\<newline>=== RIDER RIDE HISTORY ==='', endl, put_str ''Rider: '',
                    put_str (Rider.name this), put_str '' (ID: '', put_int (riderID this),
                    put_str '')'', endl, put_str ''Total Rides: '',
                    put_size (length (requestedRides this)), endl] os"
  from viewRides_loop_Some [of rides 0 "dlit 0 10" ?os] obtain os' body where
    ran: "viewRides_loop (map Some rides) 0 (dlit 0 10) ?os =
          Inr (foldl dadd (dlit 0 10) (map fare rides), os')"
    and buf: "buffer os' = buffer ?os @ body"
    by auto
  show ?thesis
    using ran buf by (simp add: viewRides_def assms fmt_double_fixed)
qed


lemma main_returns_zero: "\<exists>os'. main = Inr (0, os')"
  by (simp add: main_def Let_def requestRide_def addRide_def new_Driver_def new_Rider_def
      getDriverInfo_def viewRides_def demonstratePolymorphism_def viewRides_loop.simps)

subsection \<open>The amounts and texts of \<^verbatim>\<open>main\<close>\<close>

lemma main_fares:
  "dmul (dlit 155 10) (dlit 20 10) = dlit 310 10"
  "dmul (dmul (dlit 82 10) (dlit 35 10)) (dlit 18 10) = dlit 5166 100"
  "dmul (dlit 120 10) (dlit 20 10) = dlit 240 10"
  "dmul (dmul (dlit 258 10) (dlit 35 10)) (dlit 18 10) = dlit 16254 100"
  by (simp_all add: double_eval cong: let_weak_cong)

lemma dadd_zero_dlit:
  "is_double (dlit a b) \<Longrightarrow> dlit a b \<noteq> Finite True 0 (- 1074) \<Longrightarrow>
   dadd (dlit 0 10) (dlit a b) = dlit a b"
  unfolding dlit_zero by (rule dadd_zero_left)

lemma main_sums:
  "dadd (dlit 0 10) (dlit 310 10) = dlit 310 10"
  "dadd (dlit 0 10) (dlit 240 10) = dlit 240 10"
  "dadd (dlit 0 10) (dlit 5166 100) = dlit 5166 100"
  "dadd (dlit 310 10) (dlit 5166 100) = dlit 8266 100"
  "dadd (dlit 240 10) (dlit 16254 100) = dlit 18654 100"
  "dadd (dlit 310 10) (dlit 16254 100) = dlit 19354 100"
  "dadd (dlit 5166 100) (dlit 240 10) = dlit 7566 100"
  "dadd (dlit 8266 100) (dlit 240 10) = dlit 10666 100"
  "dadd (dlit 10666 100) (dlit 16254 100) = dlit 2692 10"
proof -
  show "dadd (dlit 0 10) (dlit 310 10) = dlit 310 10"
    by (rule dadd_zero_dlit) (simp_all add: double_eval cong: let_weak_cong)
  show "dadd (dlit 0 10) (dlit 240 10) = dlit 240 10"
    by (rule dadd_zero_dlit) (simp_all add: double_eval cong: let_weak_cong)
  show "dadd (dlit 0 10) (dlit 5166 100) = dlit 5166 100"
    by (rule dadd_zero_dlit) (simp_all add: double_eval cong: let_weak_cong)
qed (simp_all add: double_eval cong: let_weak_cong)

lemma main_texts:
  "fmt_general 6 (dlit 48 10) = ''4.8''"
  "fmt_fixed 2 (dlit 49 10) = ''4.90''"
  "fmt_fixed 2 (dlit 155 10) = ''15.50''"
  "fmt_fixed 2 (dlit 82 10) = ''8.20''"
  "fmt_fixed 2 (dlit 120 10) = ''12.00''"
  "fmt_fixed 2 (dlit 258 10) = ''25.80''"
  "fmt_fixed 2 (dlit 18 10) = ''1.80''"
  "fmt_fixed 2 (dlit 310 10) = ''31.00''"
  "fmt_fixed 2 (dlit 5166 100) = ''51.66''"
  "fmt_fixed 2 (dlit 240 10) = ''24.00''"
  "fmt_fixed 2 (dlit 16254 100) = ''162.54''"
  "fmt_fixed 2 (dlit 8266 100) = ''82.66''"
  "fmt_fixed 2 (dlit 18654 100) = ''186.54''"
  "fmt_fixed 2 (dlit 19354 100) = ''193.54''"
  "fmt_fixed 2 (dlit 7566 100) = ''75.66''"
  "fmt_fixed 2 (dlit 2692 10) = ''269.20''"
  by (simp_all add: double_eval text_eval cong: let_weak_cong)

lemma main_numbers:
  "show_int 1 = ''1''" "show_int 2 = ''2''" "show_int 3 = ''3''" "show_int 4 = ''4''"
  "show_int 101 = ''101''" "show_int 102 = ''102''"
  "show_int 201 = ''201''" "show_int 202 = ''202''"
  "show_nat (Suc 0) = ''1''" "show_nat 2 = ''2''"
  by (simp_all add: text_eval)

lemma example_details:
  "fmt_double cout (dlit 82 10) = ''8.2''"
  "show_int (sint (2 :: 32 word)) = ''2''"
  "show_int (sint (202 :: 32 word)) = ''202''"
  by (simp_all add: fmt_double_def cout_def double_eval text_eval cong: let_weak_cong)

subsection \<open>Amounts beyond the largest double, and NaNs\<close>




lemma nan_texts:
  "fmt_fixed 2 (NaN True) = ''-nan''" "fmt_general 6 (NaN True) = ''-nan''"
  by (simp_all add: sign_str_def)

text \<open>
  A ride whose distance is a NaN with the sign bit set has a fare that is this NaN, and
  both are printed with the sign.
\<close>

lemma nan_distance_example:
  "buffer (rideDetails (new_Ride 1 ''Downtown'' ''Airport'' (NaN True)) cout) =
     ''Ride ID: 1\<newline>'' @ ''Pickup: Downtown\<newline>'' @ ''Dropoff: Airport\<newline>'' @
     ''Distance: -nan miles\<newline>'' @ ''Fare: $-nan\<newline>''"
  "buffer (rideDetails (new_PremiumRide 2 ''Hotel'' ''Convention Center'' (dneg (NaN False))) cout) =
     ''=== PREMIUM RIDE ===\<newline>'' @ ''Ride ID: 2\<newline>'' @ ''Pickup: Hotel\<newline>'' @
     ''Dropoff: Convention Center\<newline>'' @ ''Distance: -nan miles\<newline>'' @
     ''Fare: $-nan\<newline>'' @ ''Luxury Multiplier: 1.80x\<newline>''"
  by (simp_all add: new_Ride_def new_PremiumRide_def Ride_ctor_def Ride_rideDetails_def
      PremiumRide_rideDetails_def Ride_fare_def PremiumRide_fare_def getDistance_def
      fmt_double_def cout_def main_numbers main_texts sign_str_def)

section \<open>Fares\<close>

text \<open>
  C1. A \<^verbatim>\<open>StandardRide\<close> constructed with a non-negative distance \<open>d\<close> has the fare
  \<^verbatim>\<open>2.0 * d\<close>. The body computes \<^verbatim>\<open>getDistance() * baseFareRate\<close>; the rate is not a
  NaN, so that the product does not depend on the order of its factors.
\<close>

theorem standard_fare:
  "dle (dlit 0 10) d \<Longrightarrow> fare (new_StandardRide ident pickup dropoff d) = dmul (dlit 20 10) d"
  by (simp add: fare_new_StandardRide dmul_dlit_left)

text \<open>C1 at the first ride of \<^verbatim>\<open>main\<close>: 15.5 miles cost 31.0.\<close>

theorem standard_fare_witness:
  "dle (dlit 0 10) (dlit 155 10) \<and>
   fare (new_StandardRide 1 ''Downtown'' ''Airport'' (dlit 155 10)) = dlit 310 10"
proof -
  have nonneg: "dle (dlit 0 10) (dlit 155 10)"
    by (simp add: double_eval cong: let_weak_cong)
  have "dmul (dlit 20 10) (dlit 155 10) = dlit 310 10"
    by (simp add: double_eval cong: let_weak_cong)
  with standard_fare [OF nonneg, of 1 "''Downtown''" "''Airport''"] nonneg show ?thesis
    by simp
qed

text \<open>
  For a normal distance below \<open>2\<^sup>1\<^sup>0\<^sup>2\<^sup>3\<close> the product is exact: the standard fare is
  the distance with its exponent raised by one, twice the distance as a real number.
\<close>

lemma standard_fare_exact:
  assumes "2 ^ 52 \<le> m" "m < 2 ^ 53" "- 1074 \<le> e" "e < 971"
  shows "fare (new_StandardRide ident pickup dropoff (Finite s m e)) = Finite s m (e + 1)"
    and "valof (fare (new_StandardRide ident pickup dropoff (Finite s m e))) =
         2 * valof (Finite s m e)"
proof -
  have two: "dlit 20 10 = Finite False 4503599627370496 (- 51)"
    by (simp add: double_eval cong: let_weak_cong)
  have v2: "valof (Finite False 4503599627370496 (- 51)) = 2"
    by (simp add: with_sign_def powr_neg_numeral)
  have shift: "valof (Finite s m (e + 1)) = 2 * valof (Finite s m e)"
    by (simp add: powr_add)
  have "dmul (Finite s m e) (Finite False 4503599627370496 (- 51)) =
        Finite (s \<noteq> False) m (e + 1)"
    using assms by (intro dmul_exact) (simp_all add: v2 shift del: valof.simps)
  then show "fare (new_StandardRide ident pickup dropoff (Finite s m e)) = Finite s m (e + 1)"
    by (simp add: fare_new_StandardRide two)
  then show "valof (fare (new_StandardRide ident pickup dropoff (Finite s m e))) =
         2 * valof (Finite s m e)"
    by (simp only: shift)
qed

text \<open>
  C2 as stated fails: the fare of a \<^verbatim>\<open>PremiumRide\<close> is not always the double
  \<^verbatim>\<open>6.3 * d\<close>. For 3 miles the two rounded products give 18.900000000000002, while
  \<^verbatim>\<open>6.3 * 3.0\<close> is 18.9.
\<close>

theorem premium_fare_counterexample:
  "dle (dlit 0 10) (dlit 30 10) \<and>
   fare (new_PremiumRide 1 ''Hotel'' ''Airport'' (dlit 30 10)) \<noteq> dmul (dlit 63 10) (dlit 30 10)"
  by (simp add: fare_new_PremiumRide double_eval cong: let_weak_cong)

text \<open>
  The value of the premium fare, against the real number \<open>6.3 \<times> d\<close>: the literal
  \<^verbatim>\<open>3.5\<close> is exact, the literal \<^verbatim>\<open>1.8\<close> and the two products are each rounded once.
\<close>

lemma cube_bounds:
  fixes u :: real
  assumes "0 \<le> u" "u \<le> 1 / 4"
  shows "(1 + u) * (1 + u) * (1 + u) \<le> 1 + 4 * u"
    and "1 - 4 * u \<le> (1 - u) * (1 - u) * (1 - u)"
proof -
  have sq: "u * u \<le> u * (1 / 4)" using assms by (intro mult_left_mono) simp_all
  have "u * u * u \<le> u * (1 / 4) * (1 / 4)"
    using assms sq by (intro mult_mono) simp_all
  then have cu: "u * u * u \<le> u / 16" by simp
  have sq0: "0 \<le> u * u" by simp
  have cu0: "0 \<le> u * u * u" using assms by simp
  have "(1 + u) * (1 + u) * (1 + u) = 1 + 3 * u + 3 * (u * u) + u * u * u"
    by (simp add: algebra_simps)
  also have "\<dots> \<le> 1 + 4 * u" using sq cu assms by linarith
  finally show "(1 + u) * (1 + u) * (1 + u) \<le> 1 + 4 * u" .
  have "(1 - u) * (1 - u) * (1 - u) = 1 - 3 * u + 3 * (u * u) - u * u * u"
    by (simp add: algebra_simps)
  moreover have "1 - 4 * u \<le> 1 - 3 * u + 3 * (u * u) - u * u * u"
    using sq0 cu assms by linarith
  ultimately show "1 - 4 * u \<le> (1 - u) * (1 - u) * (1 - u)" by simp
qed

lemma two_roundings:
  fixes a P c k F u :: real
  assumes a: "0 < a" and k: "0 < k" and u: "0 \<le> u" "u \<le> 1 / 4"
    and P: "\<bar>P - a\<bar> \<le> a * u"
    and c: "\<bar>c - k\<bar> \<le> k * u"
    and F: "\<bar>F - P * c\<bar> \<le> P * c * u"
  shows "\<bar>F - a * k\<bar> \<le> a * k * (4 * u)"
proof -
  have P_lo: "a * (1 - u) \<le> P" and P_hi: "P \<le> a * (1 + u)"
    using P by (simp_all add: abs_le_iff algebra_simps)
  have c_lo: "k * (1 - u) \<le> c" and c_hi: "c \<le> k * (1 + u)"
    using c by (simp_all add: abs_le_iff algebra_simps)
  have u1: "0 \<le> 1 - u" "0 \<le> 1 + u" using u by simp_all
  have a0: "0 \<le> a * (1 - u)" "0 \<le> a * (1 + u)" using a u1 by simp_all
  have k0: "0 \<le> k * (1 - u)" using k u1 by simp
  have P0: "0 \<le> P" using a0(1) P_lo by simp
  have c0: "0 \<le> c" using k0 c_lo by simp
  have Pc_hi: "P * c \<le> a * (1 + u) * (k * (1 + u))"
    using P_hi c_hi a0(2) c0 by (rule mult_mono)
  have Pc_lo: "a * (1 - u) * (k * (1 - u)) \<le> P * c"
    using P_lo c_lo P0 k0 by (rule mult_mono)
  have F_lo: "P * c * (1 - u) \<le> F" and F_hi: "F \<le> P * c * (1 + u)"
    using F by (simp_all add: abs_le_iff algebra_simps)
  have ak: "0 \<le> a * k" using a k by simp
  have "F \<le> a * (1 + u) * (k * (1 + u)) * (1 + u)"
    using F_hi mult_right_mono [OF Pc_hi u1(2)] by simp
  also have "\<dots> = a * k * ((1 + u) * (1 + u) * (1 + u))" by simp
  also have "\<dots> \<le> a * k * (1 + 4 * u)"
    using cube_bounds(1) [OF u] ak by (rule mult_left_mono)
  finally have hi: "F \<le> a * k * (1 + 4 * u)" .
  have "a * k * (1 - 4 * u) \<le> a * k * ((1 - u) * (1 - u) * (1 - u))"
    using cube_bounds(2) [OF u] ak by (rule mult_left_mono)
  also have "\<dots> = a * (1 - u) * (k * (1 - u)) * (1 - u)" by simp
  also have "\<dots> \<le> P * c * (1 - u)"
    using Pc_lo u1(1) by (rule mult_right_mono)
  also have "\<dots> \<le> F" by (rule F_lo)
  finally have lo: "a * k * (1 - 4 * u) \<le> F" .
  from lo hi show ?thesis by (simp add: abs_le_iff algebra_simps)
qed

lemma literal_values:
  "dlit 35 10 = Finite False 7881299347898368 (- 51)"
  "dlit 18 10 = Finite False 8106479329266893 (- 52)"
  by (simp_all add: double_eval cong: let_weak_cong)

lemma literal_reals:
  "valof (Finite False 7881299347898368 (- 51)) = 7 / 2"
  "\<bar>valof (Finite False 8106479329266893 (- 52)) - 9 / 5\<bar> \<le> 9 / 5 * 2 powr (- 53)"
  "1 \<le> valof (Finite False 8106479329266893 (- 52))"
  "valof (Finite False 8106479329266893 (- 52)) \<le> 2"
  by (simp_all add: with_sign_def powr_neg_numeral)

lemma normal_value_bounds:
  assumes "2 ^ 52 \<le> m" "m < 2 ^ 53"
  shows "2 powr (real_of_int (e + 52)) \<le> valof (Finite False m e)"
    and "valof (Finite False m e) < 2 powr (real_of_int (e + 53))"
proof -
  have "real ((2::nat) ^ 52) \<le> real m" using assms(1) by (simp only: of_nat_le_iff)
  then have "2 ^ 52 \<le> real m" by simp
  then have "2 ^ 52 * 2 powr (real_of_int e) \<le> real m * 2 powr (real_of_int e)"
    by (simp only: mult_le_cancel_right_pos powr_gt_zero)
  then show "2 powr (real_of_int (e + 52)) \<le> valof (Finite False m e)"
    by (simp only: powr_shift of_nat_numeral valof.simps with_sign_def if_False of_int_of_nat_eq)
  have "real m < real ((2::nat) ^ 53)" using assms(2) by (simp only: of_nat_less_iff)
  then have "real m < 2 ^ 53" by simp
  then have "real m * 2 powr (real_of_int e) < 2 ^ 53 * 2 powr (real_of_int e)"
    by (simp only: mult_less_cancel_right_pos powr_gt_zero)
  then show "valof (Finite False m e) < 2 powr (real_of_int (e + 53))"
    by (simp only: powr_shift of_nat_numeral valof.simps with_sign_def if_False of_int_of_nat_eq)
qed

lemma premium_fare_value:
  assumes m: "2 ^ 52 \<le> m" "m < 2 ^ 53" and e: "- 1000 \<le> e" "e \<le> 900"
  shows "\<bar>valof (dmul (dmul (Finite False m e) (dlit 35 10)) (dlit 18 10)) -
          63 / 10 * valof (Finite False m e)\<bar>
         \<le> 63 / 10 * valof (Finite False m e) * 2 powr (- 51)"
proof -
  define v where "v = valof (Finite False m e)"
  define c where "c = valof (Finite False 8106479329266893 (- 52))"
  define u :: real where "u = 2 powr (- 53)"
  define a where "a = v * (7 / 2)"
  have u: "0 \<le> u" "u \<le> 1 / 4" "u \<le> 1 / 2" by (simp_all add: u_def powr_neg_numeral)
  have "(2::real) powr (- 948) \<le> 2 powr (real_of_int (e + 52))"
    using e by (intro powr_mono) simp_all
  also have "\<dots> \<le> valof (Finite False m e)"
    by (rule normal_value_bounds(1) [OF m])
  finally have v_lo: "2 powr (- 948) \<le> v" by (simp only: v_def)
  have "valof (Finite False m e) < 2 powr (real_of_int (e + 53))"
    by (rule normal_value_bounds(2) [OF m])
  also have "\<dots> \<le> 2 powr 953"
    using e by (intro powr_mono) simp_all
  finally have v_hi: "v < 2 powr 953" by (simp only: v_def)
  have vpos: "0 < v" using v_lo by (rule less_le_trans [rotated]) simp
  have apos: "0 < a" using vpos by (simp add: a_def)
  have a_lo: "2 powr (- 948) \<le> a" using v_lo vpos by (simp add: a_def)
  have a_hi: "a < 4 * 2 powr 953" using v_hi vpos by (simp add: a_def)
  have c: "\<bar>c - 9 / 5\<bar> \<le> 9 / 5 * u" "1 \<le> c" "c \<le> 2"
    unfolding c_def u_def by (rule literal_reals)+
  have prod1: "valof (Finite False m e) * valof (Finite False 7881299347898368 (- 51)) = a"
    by (simp only: literal_reals(1) a_def v_def)
  have "2 powr (- 1022) \<le> \<bar>a\<bar>" "\<bar>a\<bar> < 2 powr 1023"
    using a_lo a_hi apos by (simp_all add: powr_neg_numeral)
  from dmul_normal [of False m e False 7881299347898368 "- 51", unfolded prod1, OF this]
  obtain p g where first: "dmul (Finite False m e) (Finite False 7881299347898368 (- 51)) =
        Finite False p g"
    and err1: "\<bar>valof (Finite False p g) - a\<bar> \<le> a * u"
    using apos by (auto simp add: u_def)
  define P where "P = valof (Finite False p g)"
  have P_lo: "a * (1 - u) \<le> P" and P_hi: "P \<le> a * (1 + u)"
    using err1 by (simp_all add: P_def abs_le_iff algebra_simps)
  have "a * (1 / 2) \<le> a * (1 - u)" using apos u by (intro mult_left_mono) simp_all
  with P_lo have P_half: "a / 2 \<le> P" by simp
  have "a * (1 + u) \<le> a * 2" using apos u by (intro mult_left_mono) simp_all
  with P_hi have P_twice: "P \<le> 2 * a" by simp
  have Ppos: "0 < P" using P_half apos by simp
  have Pc_pos: "0 < P * c" using Ppos c(2) by simp
  have "a / 2 * 1 \<le> P * c" using P_half c(2) Ppos by (intro mult_mono) simp_all
  then have Pc_lo: "2 powr (- 1022) \<le> \<bar>P * c\<bar>"
    using a_lo Pc_pos by (simp add: powr_neg_numeral)
  have "P * c \<le> (2 * a) * 2" using P_twice c(2,3) Ppos apos by (intro mult_mono) simp_all
  then have Pc_hi: "\<bar>P * c\<bar> < 2 powr 1023"
    using a_hi Pc_pos by simp
  from dmul_normal [of False p g False 8106479329266893 "- 52", folded P_def c_def, OF Pc_lo Pc_hi]
  obtain q h where second: "dmul (Finite False p g) (Finite False 8106479329266893 (- 52)) =
        Finite False q h"
    and err2: "\<bar>valof (Finite False q h) - P * c\<bar> \<le> P * c * u"
    using Pc_pos by (auto simp add: u_def)
  have eq1: "a * (9 / 5) = 63 / 10 * v" by (simp add: a_def)
  have eq2: "4 * u = 2 powr (- 51)" by (simp add: u_def powr_neg_numeral)
  have "\<bar>valof (Finite False q h) - a * (9 / 5)\<bar> \<le> a * (9 / 5) * (4 * u)"
    using apos _ u(1,2) err1 [folded P_def] c(1) err2 by (rule two_roundings) simp
  then have "\<bar>valof (Finite False q h) - 63 / 10 * v\<bar> \<le> 63 / 10 * v * 2 powr (- 51)"
    by (simp only: eq1 eq2)
  then show ?thesis
    by (simp only: literal_values first second v_def)
qed

text \<open>
  C2, amended. A \<^verbatim>\<open>PremiumRide\<close> constructed with a non-negative distance \<open>d\<close> has the
  fare \<^verbatim>\<open>3.5 * d * 1.8\<close>, the two multiplications done in this order, each rounded to a
  double. For a normal \<open>d\<close> from \<open>2\<^sup>-\<^sup>9\<^sup>4\<^sup>8\<close> up to \<open>2\<^sup>9\<^sup>5\<^sup>3\<close> the value of the fare is the
  real number \<open>6.3 \<times> d\<close> up to a relative error of \<open>2\<^sup>-\<^sup>5\<^sup>1\<close>.
\<close>

theorem premium_fare:
  "dle (dlit 0 10) d \<Longrightarrow>
   fare (new_PremiumRide ident pickup dropoff d) = dmul (dmul (dlit 35 10) d) (dlit 18 10) \<and>
   (\<forall>m e. d = Finite False m e \<and> 2 ^ 52 \<le> m \<and> m < 2 ^ 53 \<and> - 1000 \<le> e \<and> e \<le> 900 \<longrightarrow>
      \<bar>valof (fare (new_PremiumRide ident pickup dropoff d)) - 63 / 10 * valof d\<bar>
        \<le> 63 / 10 * valof d * 2 powr (- 51))"
proof (intro conjI allI impI)
  show "fare (new_PremiumRide ident pickup dropoff d) = dmul (dmul (dlit 35 10) d) (dlit 18 10)"
    by (simp add: fare_new_PremiumRide dmul_dlit_left)
next
  fix m e
  assume "d = Finite False m e \<and> 2 ^ 52 \<le> m \<and> m < 2 ^ 53 \<and> - 1000 \<le> e \<and> e \<le> 900"
  then have d: "d = Finite False m e" and m: "2 ^ 52 \<le> m" "m < 2 ^ 53"
    and e: "- 1000 \<le> e" "e \<le> 900"
    by simp_all
  show "\<bar>valof (fare (new_PremiumRide ident pickup dropoff d)) - 63 / 10 * valof d\<bar>
        \<le> 63 / 10 * valof d * 2 powr (- 51)"
    unfolding fare_new_PremiumRide d by (rule premium_fare_value [OF m e])
qed

text \<open>
  C2, amended, at the second ride of \<^verbatim>\<open>main\<close>: 8.2 miles cost 51.66, the double nearest
  to \<open>6.3 \<times> 8.2\<close>.
\<close>

theorem premium_fare_witness:
  "dle (dlit 0 10) (dlit 82 10) \<and>
   fare (new_PremiumRide 2 ''Hotel'' ''Convention Center'' (dlit 82 10)) = dlit 5166 100 \<and>
   \<bar>valof (dlit 5166 100) - 63 / 10 * valof (dlit 82 10)\<bar>
     \<le> 63 / 10 * valof (dlit 82 10) * 2 powr (- 51)"
proof -
  have nonneg: "dle (dlit 0 10) (dlit 82 10)"
    by (simp add: double_eval cong: let_weak_cong)
  have lit: "dlit 82 10 = Finite False 4616189618054758 (- 49)"
    by (simp add: double_eval cong: let_weak_cong)
  have val: "dmul (dmul (dlit 35 10) (dlit 82 10)) (dlit 18 10) = dlit 5166 100"
    by (simp add: double_eval cong: let_weak_cong)
  note pf = premium_fare [OF nonneg, of 2 "''Hotel''" "''Convention Center''"]
  have eq: "fare (new_PremiumRide 2 ''Hotel'' ''Convention Center'' (dlit 82 10)) = dlit 5166 100"
    using pf [THEN conjunct1] by (simp only: val)
  have "dlit 82 10 = Finite False 4616189618054758 (- 49) \<and>
        2 ^ 52 \<le> (4616189618054758::nat) \<and> (4616189618054758::nat) < 2 ^ 53 \<and>
        - 1000 \<le> (- 49::int) \<and> (- 49::int) \<le> 900"
    using lit by simp
  from pf [THEN conjunct2, rule_format, OF this]
  have "\<bar>valof (dlit 5166 100) - 63 / 10 * valof (dlit 82 10)\<bar>
     \<le> 63 / 10 * valof (dlit 82 10) * 2 powr (- 51)"
    by (simp only: eq)
  with nonneg eq show ?thesis by (intro conjI)
qed

section \<open>The constructors\<close>

text \<open>
  C3 as stated fails: no constructor checks its arguments, so \<^verbatim>\<open>Ride(1, "Downtown",
  "Airport", -5.0)\<close> is a ride whose distance is not \<open>\<ge> 0\<close>.
\<close>

theorem negative_distance_counterexample:
  "\<not> dle (dlit 0 10) (getDistance (new_Ride 1 ''Downtown'' ''Airport'' (dneg (dlit 50 10))))"
  by (simp add: new_Ride_def Ride_ctor_def getDistance_def double_eval cong: let_weak_cong)

text \<open>
  C3, amended. Every constructed ride has a fare rate \<open>> 0\<close> (2.0 for \<^verbatim>\<open>Ride\<close> and
  \<^verbatim>\<open>StandardRide\<close>, 3.5 for \<^verbatim>\<open>PremiumRide\<close>), and its distance is the constructor
  argument, unchanged: the distance is \<open>\<ge> 0\<close> exactly when the argument is.
\<close>

theorem constructed_ride_invariant:
  "dlt (dlit 0 10) (baseFareRate (members (new_Ride ident pickup dropoff d))) \<and>
   dlt (dlit 0 10) (baseFareRate (members (new_StandardRide ident pickup dropoff d))) \<and>
   dlt (dlit 0 10) (baseFareRate (members (new_PremiumRide ident pickup dropoff d))) \<and>
   getDistance (new_Ride ident pickup dropoff d) = d \<and>
   getDistance (new_StandardRide ident pickup dropoff d) = d \<and>
   getDistance (new_PremiumRide ident pickup dropoff d) = d \<and>
   dle (dlit 0 10) (getDistance (new_Ride ident pickup dropoff d)) = dle (dlit 0 10) d \<and>
   dle (dlit 0 10) (getDistance (new_StandardRide ident pickup dropoff d)) = dle (dlit 0 10) d \<and>
   dle (dlit 0 10) (getDistance (new_PremiumRide ident pickup dropoff d)) = dle (dlit 0 10) d \<and>
   baseFareRate (members (new_Ride ident pickup dropoff d)) = dlit 20 10 \<and>
   baseFareRate (members (new_StandardRide ident pickup dropoff d)) = dlit 20 10 \<and>
   baseFareRate (members (new_PremiumRide ident pickup dropoff d)) = dlit 35 10"
proof -
  have "dlt (dlit 0 10) (dlit 20 10)" "dlt (dlit 0 10) (dlit 35 10)"
    by (simp_all add: double_eval cong: let_weak_cong)
  then show ?thesis
    by (simp add: new_Ride_def new_StandardRide_def new_PremiumRide_def Ride_ctor_def
        getDistance_def)
qed

section \<open>Driver earnings\<close>







section \<open>Rider spend\<close>



section \<open>Dispatch and formatting\<close>

text \<open>
  C6. A ride held as a \<^verbatim>\<open>Ride\<close>, as the elements of the \<^verbatim>\<open>std::shared_ptr<Ride>\<close>
  sequence of \<^verbatim>\<open>demonstratePolymorphism\<close> are, answers the virtual calls \<^verbatim>\<open>fare()\<close>,
  \<^verbatim>\<open>getRideType()\<close> and \<^verbatim>\<open>rideDetails()\<close> with the body of its own class and with what
  that class computes: a \<^verbatim>\<open>StandardRide\<close> with the fare \<^verbatim>\<open>distance * 2.0\<close>, the label
  ``Standard'' and the detail block with that fare; a \<^verbatim>\<open>PremiumRide\<close> with the fare
  \<^verbatim>\<open>distance * 3.5 * 1.8\<close>, the label ``Premium'' and the banner, the detail block with
  that fare and the multiplier line. Run on a sequence of a \<^verbatim>\<open>StandardRide\<close> and a
  \<^verbatim>\<open>PremiumRide\<close>, the demonstration routine prints for each of them the label and the
  text of its class (the second distance with two decimal places, because the first block
  leaves the stream in fixed format) and then the sum of the two fares. The output of the
  routine is stated for distances that are not NaNs with a clear sign bit: then the sum
  is the same with either order of the operands of its additions.
\<close>

theorem polymorphic_dispatch:
  "fare (new_StandardRide ident pickup dropoff d) =
     StandardRide_fare (new_StandardRide ident pickup dropoff d) \<and>
   StandardRide_fare (new_StandardRide ident pickup dropoff d) = dmul d (dlit 20 10) \<and>
   getRideType (new_StandardRide ident pickup dropoff d) =
     StandardRide_getRideType (new_StandardRide ident pickup dropoff d) \<and>
   StandardRide_getRideType (new_StandardRide ident pickup dropoff d) = ''Standard'' \<and>
   rideDetails (new_StandardRide ident pickup dropoff d) os =
     Ride_rideDetails (new_StandardRide ident pickup dropoff d) os \<and>
   buffer (rideDetails (new_StandardRide ident pickup dropoff d) os) =
     buffer os @ ''Ride ID: '' @ show_int (sint ident) @ ''\<newline>'' @
     ''Pickup: '' @ pickup @ ''\<newline>'' @ ''Dropoff: '' @ dropoff @ ''\<newline>'' @
     ''Distance: '' @ fmt_double os d @ '' miles\<newline>'' @
     ''Fare: $'' @ fmt_fixed 2 (dmul d (dlit 20 10)) @ ''\<newline>'' \<and>
   fare (new_PremiumRide ident pickup dropoff d) =
     PremiumRide_fare (new_PremiumRide ident pickup dropoff d) \<and>
   PremiumRide_fare (new_PremiumRide ident pickup dropoff d) =
     dmul (dmul d (dlit 35 10)) (dlit 18 10) \<and>
   getRideType (new_PremiumRide ident pickup dropoff d) =
     PremiumRide_getRideType (new_PremiumRide ident pickup dropoff d) \<and>
   PremiumRide_getRideType (new_PremiumRide ident pickup dropoff d) = ''Premium'' \<and>
   rideDetails (new_PremiumRide ident pickup dropoff d) os =
     PremiumRide_rideDetails (new_PremiumRide ident pickup dropoff d) os \<and>
   buffer (rideDetails (new_PremiumRide ident pickup dropoff d) os) =
     buffer os @ ''=== PREMIUM RIDE ===\<newline>'' @
     ''Ride ID: '' @ show_int (sint ident) @ ''\<newline>'' @
     ''Pickup: '' @ pickup @ ''\<newline>'' @ ''Dropoff: '' @ dropoff @ ''\<newline>'' @
     ''Distance: '' @ fmt_double os d @ '' miles\<newline>'' @
     ''Fare: $'' @ fmt_fixed 2 (dmul (dmul d (dlit 35 10)) (dlit 18 10)) @ ''\<newline>'' @
     ''Luxury Multiplier: 1.80x\<newline>'' \<and>
   (d \<noteq> NaN False \<and> d' \<noteq> NaN False \<longrightarrow>
    map_sum id buffer
      (demonstratePolymorphism
         [Some (new_StandardRide ident pickup dropoff d),
          Some (new_PremiumRide ident' pickup' dropoff' d')] os) =
    Inr (buffer os @ ''\<newline>=== POLYMORPHISM DEMONSTRATION ===\<newline>'' @
      ''Processing different ride types polymorphically:\<newline>'' @
      ''\<newline>--- Standard Ride ---\<newline>'' @
      ''Ride ID: '' @ show_int (sint ident) @ ''\<newline>'' @
      ''Pickup: '' @ pickup @ ''\<newline>'' @ ''Dropoff: '' @ dropoff @ ''\<newline>'' @
      ''Distance: '' @ fmt_double os d @ '' miles\<newline>'' @
      ''Fare: $'' @ fmt_fixed 2 (dmul d (dlit 20 10)) @ ''\<newline>'' @
      ''\<newline>--- Premium Ride ---\<newline>'' @ ''=== PREMIUM RIDE ===\<newline>'' @
      ''Ride ID: '' @ show_int (sint ident') @ ''\<newline>'' @
      ''Pickup: '' @ pickup' @ ''\<newline>'' @ ''Dropoff: '' @ dropoff' @ ''\<newline>'' @
      ''Distance: '' @ fmt_fixed 2 d' @ '' miles\<newline>'' @
      ''Fare: $'' @ fmt_fixed 2 (dmul (dmul d' (dlit 35 10)) (dlit 18 10)) @ ''\<newline>'' @
      ''Luxury Multiplier: 1.80x\<newline>'' @
      ''\<newline>Total Fares for All Rides: $'' @
      fmt_fixed 2 (dadd (dadd (dlit 0 10) (dmul d (dlit 20 10)))
                     (dmul (dmul d' (dlit 35 10)) (dlit 18 10))) @ ''\<newline>'') \<and>
    dadd (dmul (dmul d' (dlit 35 10)) (dlit 18 10)) (dadd (dmul d (dlit 20 10)) (dlit 0 10)) =
      dadd (dadd (dlit 0 10) (dmul d (dlit 20 10))) (dmul (dmul d' (dlit 35 10)) (dlit 18 10)))"
proof (intro conjI impI)
  show "buffer (rideDetails (new_StandardRide ident pickup dropoff d) os) =
     buffer os @ ''Ride ID: '' @ show_int (sint ident) @ ''\<newline>'' @
     ''Pickup: '' @ pickup @ ''\<newline>'' @ ''Dropoff: '' @ dropoff @ ''\<newline>'' @
     ''Distance: '' @ fmt_double os d @ '' miles\<newline>'' @
     ''Fare: $'' @ fmt_fixed 2 (dmul d (dlit 20 10)) @ ''\<newline>''"
    by (simp add: new_StandardRide_def Ride_ctor_def Ride_rideDetails_def StandardRide_fare_def
        getDistance_def fmt_double_fixed)
  show "buffer (rideDetails (new_PremiumRide ident pickup dropoff d) os) =
     buffer os @ ''=== PREMIUM RIDE ===\<newline>'' @
     ''Ride ID: '' @ show_int (sint ident) @ ''\<newline>'' @
     ''Pickup: '' @ pickup @ ''\<newline>'' @ ''Dropoff: '' @ dropoff @ ''\<newline>'' @
     ''Distance: '' @ fmt_double os d @ '' miles\<newline>'' @
     ''Fare: $'' @ fmt_fixed 2 (dmul (dmul d (dlit 35 10)) (dlit 18 10)) @ ''\<newline>'' @
     ''Luxury Multiplier: 1.80x\<newline>''"
    by (simp add: new_PremiumRide_def Ride_ctor_def PremiumRide_rideDetails_def
        Ride_rideDetails_def PremiumRide_fare_def getDistance_def fmt_double_fixed
        fmt_luxuryMultiplier)
  show "map_sum id buffer
      (demonstratePolymorphism
         [Some (new_StandardRide ident pickup dropoff d),
          Some (new_PremiumRide ident' pickup' dropoff' d')] os) =
    Inr (buffer os @ ''\<newline>=== POLYMORPHISM DEMONSTRATION ===\<newline>'' @
      ''Processing different ride types polymorphically:\<newline>'' @
      ''\<newline>--- Standard Ride ---\<newline>'' @
      ''Ride ID: '' @ show_int (sint ident) @ ''\<newline>'' @
      ''Pickup: '' @ pickup @ ''\<newline>'' @ ''Dropoff: '' @ dropoff @ ''\<newline>'' @
      ''Distance: '' @ fmt_double os d @ '' miles\<newline>'' @
      ''Fare: $'' @ fmt_fixed 2 (dmul d (dlit 20 10)) @ ''\<newline>'' @
      ''\<newline>--- Premium Ride ---\<newline>'' @ ''=== PREMIUM RIDE ===\<newline>'' @
      ''Ride ID: '' @ show_int (sint ident') @ ''\<newline>'' @
      ''Pickup: '' @ pickup' @ ''\<newline>'' @ ''Dropoff: '' @ dropoff' @ ''\<newline>'' @
      ''Distance: '' @ fmt_fixed 2 d' @ '' miles\<newline>'' @
      ''Fare: $'' @ fmt_fixed 2 (dmul (dmul d' (dlit 35 10)) (dlit 18 10)) @ ''\<newline>'' @
      ''Luxury Multiplier: 1.80x\<newline>'' @
      ''\<newline>Total Fares for All Rides: $'' @
      fmt_fixed 2 (dadd (dadd (dlit 0 10) (dmul d (dlit 20 10)))
                     (dmul (dmul d' (dlit 35 10)) (dlit 18 10))) @ ''\<newline>'')"
    by (simp add: demonstratePolymorphism_def new_StandardRide_def new_PremiumRide_def
        Ride_ctor_def PremiumRide_rideDetails_def Ride_rideDetails_def StandardRide_fare_def
        PremiumRide_fare_def getDistance_def fmt_double_fixed fmt_luxuryMultiplier
        StandardRide_getRideType_def PremiumRide_getRideType_def)
next
  assume "d \<noteq> NaN False \<and> d' \<noteq> NaN False"
  then have "dmul d (dlit 20 10) \<noteq> NaN False"
    "dmul (dmul d' (dlit 35 10)) (dlit 18 10) \<noteq> NaN False"
    by (simp_all add: dmul_dlit_not_NaN_False)
  then show "dadd (dmul (dmul d' (dlit 35 10)) (dlit 18 10)) (dadd (dmul d (dlit 20 10)) (dlit 0 10)) =
      dadd (dadd (dlit 0 10) (dmul d (dlit 20 10))) (dmul (dmul d' (dlit 35 10)) (dlit 18 10))"
    by (simp add: dadd_commute dadd_not_NaN_False)
qed (simp_all add: new_StandardRide_def new_PremiumRide_def Ride_ctor_def StandardRide_fare_def
      PremiumRide_fare_def getDistance_def StandardRide_getRideType_def
      PremiumRide_getRideType_def)

text \<open>
  C6 at the first two rides of \<^verbatim>\<open>main\<close>, a \<^verbatim>\<open>StandardRide\<close> of 15.5 miles and a
  \<^verbatim>\<open>PremiumRide\<close> of 8.2 miles, on a stream in its initial state.
\<close>

theorem polymorphic_dispatch_witness:
  "dlit 155 10 \<noteq> NaN False \<and> dlit 82 10 \<noteq> NaN False \<and>
   map_sum id buffer
     (demonstratePolymorphism
        [Some (new_StandardRide 1 ''Downtown'' ''Airport'' (dlit 155 10)),
         Some (new_PremiumRide 2 ''Hotel'' ''Convention Center'' (dlit 82 10))] cout) =
   Inr (''\<newline>=== POLYMORPHISM DEMONSTRATION ===\<newline>'' @
     ''Processing different ride types polymorphically:\<newline>'' @
     ''\<newline>--- Standard Ride ---\<newline>'' @ ''Ride ID: 1\<newline>'' @ ''Pickup: Downtown\<newline>'' @
     ''Dropoff: Airport\<newline>'' @ ''Distance: 15.5 miles\<newline>'' @ ''Fare: $31.00\<newline>'' @
     ''\<newline>--- Premium Ride ---\<newline>'' @ ''=== PREMIUM RIDE ===\<newline>'' @ ''Ride ID: 2\<newline>'' @
     ''Pickup: Hotel\<newline>'' @ ''Dropoff: Convention Center\<newline>'' @
     ''Distance: 8.20 miles\<newline>'' @ ''Fare: $51.66\<newline>'' @
     ''Luxury Multiplier: 1.80x\<newline>'' @ ''\<newline>Total Fares for All Rides: $82.66\<newline>'')"
proof -
  have numbers: "dlit 155 10 \<noteq> NaN False \<and> dlit 82 10 \<noteq> NaN False"
    by simp
  have texts: "buffer cout = []" "show_int (sint (1 :: 32 word)) = ''1''"
    "show_int (sint (2 :: 32 word)) = ''2''" "fmt_double cout (dlit 155 10) = ''15.5''"
    by (simp_all add: fmt_double_def cout_def double_eval text_eval cong: let_weak_cong)
  note claim = polymorphic_dispatch
    [where ident = 1 and pickup = "''Downtown''" and dropoff = "''Airport''"
       and d = "dlit 155 10" and os = cout and ident' = 2 and pickup' = "''Hotel''"
       and dropoff' = "''Convention Center''" and d' = "dlit 82 10"]
  note run = claim [THEN conjunct2, THEN conjunct2, THEN conjunct2, THEN conjunct2,
      THEN conjunct2, THEN conjunct2, THEN conjunct2, THEN conjunct2, THEN conjunct2,
      THEN conjunct2, THEN conjunct2, THEN conjunct2, THEN mp, OF numbers, THEN conjunct1]
  have "map_sum id buffer
     (demonstratePolymorphism
        [Some (new_StandardRide 1 ''Downtown'' ''Airport'' (dlit 155 10)),
         Some (new_PremiumRide 2 ''Hotel'' ''Convention Center'' (dlit 82 10))] cout) =
   Inr (''\<newline>=== POLYMORPHISM DEMONSTRATION ===\<newline>'' @
     ''Processing different ride types polymorphically:\<newline>'' @
     ''\<newline>--- Standard Ride ---\<newline>'' @ ''Ride ID: 1\<newline>'' @ ''Pickup: Downtown\<newline>'' @
     ''Dropoff: Airport\<newline>'' @ ''Distance: 15.5 miles\<newline>'' @ ''Fare: $31.00\<newline>'' @
     ''\<newline>--- Premium Ride ---\<newline>'' @ ''=== PREMIUM RIDE ===\<newline>'' @ ''Ride ID: 2\<newline>'' @
     ''Pickup: Hotel\<newline>'' @ ''Dropoff: Convention Center\<newline>'' @
     ''Distance: 8.20 miles\<newline>'' @ ''Fare: $51.66\<newline>'' @
     ''Luxury Multiplier: 1.80x\<newline>'' @ ''\<newline>Total Fares for All Rides: $82.66\<newline>'')"
    using run unfolding texts main_fares main_sums main_texts by simp
  with numbers show ?thesis by (intro conjI) simp_all
qed

text \<open>
  C7. \<^verbatim>\<open>PremiumRide::rideDetails\<close> is the banner, then \<^verbatim>\<open>Ride::rideDetails\<close> on the same
  object, then the multiplier line; its text is the banner line, the detail block of the
  base class and the line ``Luxury Multiplier: 1.80x''.
\<close>

theorem premium_rideDetails_composition:
  "rideDetails (new_PremiumRide ident pickup dropoff d) os =
     chain [put_str ''Luxury Multiplier: '', put_double (dlit 18 10), put_str ''x'', endl]
       (Ride_rideDetails (new_PremiumRide ident pickup dropoff d)
         (chain [put_str ''=== PREMIUM RIDE ==='', endl] os)) \<and>
   buffer (rideDetails (new_PremiumRide ident pickup dropoff d) os) =
     buffer os @ ''=== PREMIUM RIDE ===\<newline>'' @
     detail_block (new_PremiumRide ident pickup dropoff d) os @
     ''Luxury Multiplier: 1.80x\<newline>''"
  by (simp add: new_PremiumRide_def PremiumRide_rideDetails_def Ride_rideDetails_buffer
      detail_block_def shared_fields_def fmt_double_fixed fmt_luxuryMultiplier)

text \<open>
  C7 at the second ride of \<^verbatim>\<open>main\<close>, written to a stream in its initial state.
\<close>

theorem premium_rideDetails_composition_witness:
  "buffer (rideDetails (new_PremiumRide 2 ''Hotel'' ''Convention Center'' (dlit 82 10)) cout) =
     ''=== PREMIUM RIDE ===\<newline>'' @ ''Ride ID: 2\<newline>'' @ ''Pickup: Hotel\<newline>'' @
     ''Dropoff: Convention Center\<newline>'' @ ''Distance: 8.2 miles\<newline>'' @
     ''Fare: $51.66\<newline>'' @ ''Luxury Multiplier: 1.80x\<newline>''"
proof -
  have block: "detail_block (new_PremiumRide 2 ''Hotel'' ''Convention Center'' (dlit 82 10)) cout =
      ''Ride ID: 2\<newline>'' @ ''Pickup: Hotel\<newline>'' @ ''Dropoff: Convention Center\<newline>'' @
      ''Distance: 8.2 miles\<newline>'' @ ''Fare: $51.66\<newline>''"
    unfolding detail_block_def shared_fields_def fare_line_def fare_new_PremiumRide
      main_fares main_texts
    by (simp add: new_PremiumRide_def Ride_ctor_def getRideID_def getPickupLocation_def
        getDropoffLocation_def getDistance_def example_details main_numbers)
  have start: "buffer cout = []" by (simp add: cout_def)
  show ?thesis
    using premium_rideDetails_composition
      [of 2 "''Hotel''" "''Convention Center''" "dlit 82 10" cout, THEN conjunct2]
    unfolding block start by simp
qed

section \<open>Failure\<close>

text \<open>
  C8 as stated fails: \<^verbatim>\<open>addRide\<close> accepts a null \<^verbatim>\<open>std::shared_ptr<Ride>\<close>, and
  \<^verbatim>\<open>getDriverInfo\<close> then dereferences it.
\<close>

theorem null_ride_counterexample:
  "getDriverInfo (addRide None (new_Driver 101 ''John Smith'' (dlit 48 10))) cout =
     Inl NullPointerDereference"
  by (simp add: getDriverInfo_def addRide_def new_Driver_def)

text \<open>
  C8, amended. \<^verbatim>\<open>addRide\<close> and \<^verbatim>\<open>requestRide\<close> accept every pointer, the null pointer
  included, and store it. \<^verbatim>\<open>getDriverInfo\<close>, \<^verbatim>\<open>viewRides\<close> and the demonstration routine
  complete exactly when none of the pointers they go through is null. \<^verbatim>\<open>main\<close> passes no
  null pointer and returns 0.
\<close>

theorem failure_only_on_null_pointer:
  "Driver_getRideCount (addRide p driver) = Driver_getRideCount driver + 1 \<and>
   Rider_getRideCount (fst (requestRide p rider os)) = Rider_getRideCount rider + 1 \<and>
   (\<exists>os'. getDriverInfo driver os = Inr os') = (None \<notin> set (assignedRides driver)) \<and>
   (\<exists>os'. viewRides rider os = Inr os') = (None \<notin> set (requestedRides rider)) \<and>
   (\<exists>os'. demonstratePolymorphism rides os = Inr os') = (None \<notin> set rides) \<and>
   (\<exists>os'. main = Inr (0, os'))"
proof (intro conjI)
  show "Driver_getRideCount (addRide p driver) = Driver_getRideCount driver + 1"
    by (simp add: Driver_getRideCount_def addRide_def)
  show "Rider_getRideCount (fst (requestRide p rider os)) = Rider_getRideCount rider + 1"
    by (simp add: Rider_getRideCount_def requestRide_def)
  show "(\<exists>os'. getDriverInfo driver os = Inr os') = (None \<notin> set (assignedRides driver))"
  proof (cases "None \<in> set (assignedRides driver)")
    case True
    then show ?thesis by (simp add: getDriverInfo_def getDriverInfo_loop_None)
  next
    case False
    from no_null_pointers [OF this] obtain rs where "assignedRides driver = map Some rs" ..
    from getDriverInfo_text [OF this, of os] False show ?thesis
      by (auto dest: map_sum_buffer_Inr)
  qed
  show "(\<exists>os'. viewRides rider os = Inr os') = (None \<notin> set (requestedRides rider))"
  proof (cases "None \<in> set (requestedRides rider)")
    case True
    then obtain j where "j < length (requestedRides rider)" "requestedRides rider ! j = None"
      by (auto simp add: in_set_conv_nth)
    then have "viewRides_loop (requestedRides rider) 0 t os' = Inl NullPointerDereference"
      for t os'
      by (intro viewRides_loop_None [of 0 j]) simp_all
    with True show ?thesis by (simp add: viewRides_def)
  next
    case False
    from no_null_pointers [OF this] obtain rs where "requestedRides rider = map Some rs" ..
    from viewRides_text [OF this, of os] False show ?thesis by auto
  qed
  show "(\<exists>os'. demonstratePolymorphism rides os = Inr os') = (None \<notin> set rides)"
  proof (cases "None \<in> set rides")
    case True
    then show ?thesis
      by (simp add: demonstratePolymorphism_def demonstratePolymorphism_loop_None)
  next
    case False
    from no_null_pointers [OF this] obtain rs where rs: "rides = map Some rs" ..
    let ?os = "chain [put_str ''\<newline>=== POLYMORPHISM DEMONSTRATION ==='', endl,
                 put_str ''Processing different ride types polymorphically:'', endl] os"
    from demonstratePolymorphism_loop_Some [of rs "dlit 0 10" ?os]
    show ?thesis using False by (auto simp add: demonstratePolymorphism_def rs)
  qed
  show "\<exists>os'. main = Inr (0, os')" by (rule main_returns_zero)
qed

text \<open>
  C9. The last line of the block written by \<^verbatim>\<open>Ride::rideDetails\<close> shows, to two decimal
  places, the fare that the virtual call \<^verbatim>\<open>fare()\<close> returns for the object: for a
  \<^verbatim>\<open>PremiumRide\<close> the product with the rate 3.5 and the luxury multiplier 1.8.
\<close>

theorem fare_line_shows_virtual_fare:
  "buffer (Ride_rideDetails r os) = buffer os @ shared_fields r os @ fare_line (fare r) \<and>
   buffer (Ride_rideDetails (new_PremiumRide ident pickup dropoff d) os) =
     buffer os @ shared_fields (new_PremiumRide ident pickup dropoff d) os @
     fare_line (dmul (dmul d (dlit 35 10)) (dlit 18 10))"
  by (simp add: Ride_rideDetails_buffer fare_new_PremiumRide)

text \<open>
  C9 at the second ride of \<^verbatim>\<open>main\<close>: the base formatting shows the premium fare 51.66,
  not \<open>8.2 \<times> 3.5 = 28.70\<close>.
\<close>

theorem fare_line_shows_virtual_fare_witness:
  "buffer (Ride_rideDetails (new_PremiumRide 2 ''Hotel'' ''Convention Center'' (dlit 82 10)) cout) =
     ''Ride ID: 2\<newline>'' @ ''Pickup: Hotel\<newline>'' @ ''Dropoff: Convention Center\<newline>'' @
     ''Distance: 8.2 miles\<newline>'' @ ''Fare: $51.66\<newline>''"
proof -
  have fields: "shared_fields (new_PremiumRide 2 ''Hotel'' ''Convention Center'' (dlit 82 10)) cout =
      ''Ride ID: 2\<newline>'' @ ''Pickup: Hotel\<newline>'' @ ''Dropoff: Convention Center\<newline>'' @
      ''Distance: 8.2 miles\<newline>''"
    unfolding shared_fields_def
    by (simp add: new_PremiumRide_def Ride_ctor_def getRideID_def getPickupLocation_def
        getDropoffLocation_def getDistance_def example_details main_numbers)
  have line: "fare_line (dmul (dmul (dlit 82 10) (dlit 35 10)) (dlit 18 10)) = ''Fare: $51.66\<newline>''"
    unfolding fare_line_def main_fares main_texts by simp
  have start: "buffer cout = []" by (simp add: cout_def)
  show ?thesis
    using fare_line_shows_virtual_fare
      [where ident = 2 and pickup = "''Hotel''" and dropoff = "''Convention Center''"
         and d = "dlit 82 10" and os = cout, THEN conjunct2]
    unfolding fields line start by simp
qed

text \<open>
  C10. \<^verbatim>\<open>Ride\<close> has no pure virtual function and is constructed directly; such a ride has
  the fare \<^verbatim>\<open>distance * 2.0\<close> and the type label ``Standard'', and all three virtual
  calls give what they give for a \<^verbatim>\<open>StandardRide\<close> constructed with the same arguments.
\<close>

theorem base_ride_behaves_as_standard:
  "fare (new_Ride ident pickup dropoff d) = dmul d (dlit 20 10) \<and>
   getRideType (new_Ride ident pickup dropoff d) = ''Standard'' \<and>
   fare (new_Ride ident pickup dropoff d) = fare (new_StandardRide ident pickup dropoff d) \<and>
   getRideType (new_Ride ident pickup dropoff d) =
     getRideType (new_StandardRide ident pickup dropoff d) \<and>
   rideDetails (new_Ride ident pickup dropoff d) os =
     rideDetails (new_StandardRide ident pickup dropoff d) os"
  by (simp add: fare_new_Ride fare_new_StandardRide new_Ride_def new_StandardRide_def
      Ride_getRideType_def StandardRide_getRideType_def Ride_rideDetails_def Ride_ctor_def
      Ride_fare_def StandardRide_fare_def getDistance_def)

section \<open>The output of \<^verbatim>\<open>main\<close>\<close>

text \<open>
  The run of \<^verbatim>\<open>main\<close>, stage by stage, each stage started on a stream with any text
  \<open>B\<close> and the format state that the stage before has left. The first driver is
  printed with the rating 4.8; after that the stream stays in fixed format with
  precision 2, so the second rating is 4.90 and every distance has two decimal places.
\<close>

lemmas stream_defs =
  put_str_def endl_def put_int_def put_size_def put_double_def set_fixed_def setprecision_def
  fmt_double_def

lemmas ride_defs =
  new_StandardRide_def new_PremiumRide_def Ride_ctor_def Ride_rideDetails_def
  PremiumRide_rideDetails_def StandardRide_fare_def PremiumRide_fare_def getDistance_def
  StandardRide_getRideType_def PremiumRide_getRideType_def

lemma small_numbers: "show_nat (Suc 0) = ''1''" "show_nat (Suc (Suc 0)) = ''2''"
  by (simp_all add: text_eval)

lemma main_driver1:
  "getDriverInfo
     \<lparr>driverID = 101, name = ''John Smith'', rating = dlit 48 10,
      assignedRides = [Some (new_StandardRide 1 ''Downtown'' ''Airport'' (dlit 155 10)),
                       Some (new_PremiumRide 2 ''Hotel'' ''Convention Center'' (dlit 82 10))]\<rparr>
     \<lparr>buffer = B, floatfield_fixed = False, precision = 6\<rparr> =
   Inr \<lparr>buffer = B @
          ''\<newline>'' @
          ''=== DRIVER INFORMATION ===\<newline>'' @
          ''Driver ID: 101\<newline>'' @
          ''Name: John Smith\<newline>'' @
          ''Rating: 4.8/5.0\<newline>'' @
          ''Total Rides Completed: 2\<newline>'' @
          ''Total Earnings: $82.66\<newline>'',
        floatfield_fixed = True, precision = 2\<rparr>"
  by (simp add: getDriverInfo_def viewRides_def demonstratePolymorphism_def
      viewRides_loop.simps stream_defs ride_defs main_fares main_sums main_texts
      main_numbers small_numbers Let_def)

lemma main_driver2:
  "getDriverInfo
     \<lparr>driverID = 102, name = ''Sarah Johnson'', rating = dlit 49 10,
      assignedRides = [Some (new_StandardRide 3 ''Mall'' ''University'' (dlit 120 10)),
                       Some (new_PremiumRide 4 ''Airport'' ''Luxury Resort'' (dlit 258 10))]\<rparr>
     \<lparr>buffer = B, floatfield_fixed = True, precision = 2\<rparr> =
   Inr \<lparr>buffer = B @
          ''\<newline>'' @
          ''=== DRIVER INFORMATION ===\<newline>'' @
          ''Driver ID: 102\<newline>'' @
          ''Name: Sarah Johnson\<newline>'' @
          ''Rating: 4.90/5.0\<newline>'' @
          ''Total Rides Completed: 2\<newline>'' @
          ''Total Earnings: $186.54\<newline>'',
        floatfield_fixed = True, precision = 2\<rparr>"
  by (simp add: getDriverInfo_def viewRides_def demonstratePolymorphism_def
      viewRides_loop.simps stream_defs ride_defs main_fares main_sums main_texts
      main_numbers small_numbers Let_def)

lemma main_rider1:
  "viewRides
     \<lparr>riderID = 201, name = ''Alice Brown'',
      requestedRides = [Some (new_StandardRide 1 ''Downtown'' ''Airport'' (dlit 155 10)),
                        Some (new_PremiumRide 4 ''Airport'' ''Luxury Resort'' (dlit 258 10))]\<rparr>
     \<lparr>buffer = B, floatfield_fixed = True, precision = 2\<rparr> =
   Inr \<lparr>buffer = B @
          ''\<newline>'' @
          ''=== RIDER RIDE HISTORY ===\<newline>'' @
          ''Rider: Alice Brown (ID: 201)\<newline>'' @
          ''Total Rides: 2\<newline>'' @
          ''\<newline>'' @
          ''--- Ride 1 ---\<newline>'' @
          ''Ride ID: 1\<newline>'' @
          ''Pickup: Downtown\<newline>'' @
          ''Dropoff: Airport\<newline>'' @
          ''Distance: 15.50 miles\<newline>'' @
          ''Fare: $31.00\<newline>'' @
          ''\<newline>'' @
          ''--- Ride 2 ---\<newline>'' @
          ''=== PREMIUM RIDE ===\<newline>'' @
          ''Ride ID: 4\<newline>'' @
          ''Pickup: Airport\<newline>'' @
          ''Dropoff: Luxury Resort\<newline>'' @
          ''Distance: 25.80 miles\<newline>'' @
          ''Fare: $162.54\<newline>'' @
          ''Luxury Multiplier: 1.80x\<newline>'' @
          ''\<newline>'' @
          ''Total Amount Spent: $193.54\<newline>'',
        floatfield_fixed = True, precision = 2\<rparr>"
  by (simp add: getDriverInfo_def viewRides_def demonstratePolymorphism_def
      viewRides_loop.simps stream_defs ride_defs main_fares main_sums main_texts
      main_numbers small_numbers Let_def)

lemma main_rider2:
  "viewRides
     \<lparr>riderID = 202, name = ''Bob Wilson'',
      requestedRides = [Some (new_PremiumRide 2 ''Hotel'' ''Convention Center'' (dlit 82 10)),
                        Some (new_StandardRide 3 ''Mall'' ''University'' (dlit 120 10))]\<rparr>
     \<lparr>buffer = B, floatfield_fixed = True, precision = 2\<rparr> =
   Inr \<lparr>buffer = B @
          ''\<newline>'' @
          ''=== RIDER RIDE HISTORY ===\<newline>'' @
          ''Rider: Bob Wilson (ID: 202)\<newline>'' @
          ''Total Rides: 2\<newline>'' @
          ''\<newline>'' @
          ''--- Ride 1 ---\<newline>'' @
          ''=== PREMIUM RIDE ===\<newline>'' @
          ''Ride ID: 2\<newline>'' @
          ''Pickup: Hotel\<newline>'' @
          ''Dropoff: Convention Center\<newline>'' @
          ''Distance: 8.20 miles\<newline>'' @
          ''Fare: $51.66\<newline>'' @
          ''Luxury Multiplier: 1.80x\<newline>'' @
          ''\<newline>'' @
          ''--- Ride 2 ---\<newline>'' @
          ''Ride ID: 3\<newline>'' @
          ''Pickup: Mall\<newline>'' @
          ''Dropoff: University\<newline>'' @
          ''Distance: 12.00 miles\<newline>'' @
          ''Fare: $24.00\<newline>'' @
          ''\<newline>'' @
          ''Total Amount Spent: $75.66\<newline>'',
        floatfield_fixed = True, precision = 2\<rparr>"
  by (simp add: getDriverInfo_def viewRides_def demonstratePolymorphism_def
      viewRides_loop.simps stream_defs ride_defs main_fares main_sums main_texts
      main_numbers small_numbers Let_def)

lemma main_demonstration:
  "demonstratePolymorphism
     [Some (new_StandardRide 1 ''Downtown'' ''Airport'' (dlit 155 10)),
      Some (new_PremiumRide 2 ''Hotel'' ''Convention Center'' (dlit 82 10)),
      Some (new_StandardRide 3 ''Mall'' ''University'' (dlit 120 10)),
      Some (new_PremiumRide 4 ''Airport'' ''Luxury Resort'' (dlit 258 10))]
     \<lparr>buffer = B, floatfield_fixed = True, precision = 2\<rparr> =
   Inr \<lparr>buffer = B @
          ''\<newline>'' @
          ''=== POLYMORPHISM DEMONSTRATION ===\<newline>'' @
          ''Processing different ride types polymorphically:\<newline>'' @
          ''\<newline>'' @
          ''--- Standard Ride ---\<newline>'' @
          ''Ride ID: 1\<newline>'' @
          ''Pickup: Downtown\<newline>'' @
          ''Dropoff: Airport\<newline>'' @
          ''Distance: 15.50 miles\<newline>'' @
          ''Fare: $31.00\<newline>'' @
          ''\<newline>'' @
          ''--- Premium Ride ---\<newline>'' @
          ''=== PREMIUM RIDE ===\<newline>'' @
          ''Ride ID: 2\<newline>'' @
          ''Pickup: Hotel\<newline>'' @
          ''Dropoff: Convention Center\<newline>'' @
          ''Distance: 8.20 miles\<newline>'' @
          ''Fare: $51.66\<newline>'' @
          ''Luxury Multiplier: 1.80x\<newline>'' @
          ''\<newline>'' @
          ''--- Standard Ride ---\<newline>'' @
          ''Ride ID: 3\<newline>'' @
          ''Pickup: Mall\<newline>'' @
          ''Dropoff: University\<newline>'' @
          ''Distance: 12.00 miles\<newline>'' @
          ''Fare: $24.00\<newline>'' @
          ''\<newline>'' @
          ''--- Premium Ride ---\<newline>'' @
          ''=== PREMIUM RIDE ===\<newline>'' @
          ''Ride ID: 4\<newline>'' @
          ''Pickup: Airport\<newline>'' @
          ''Dropoff: Luxury Resort\<newline>'' @
          ''Distance: 25.80 miles\<newline>'' @
          ''Fare: $162.54\<newline>'' @
          ''Luxury Multiplier: 1.80x\<newline>'' @
          ''\<newline>'' @
          ''Total Fares for All Rides: $269.20\<newline>'',
        floatfield_fixed = True, precision = 2\<rparr>"
  by (simp add: getDriverInfo_def viewRides_def demonstratePolymorphism_def
      viewRides_loop.simps stream_defs ride_defs main_fares main_sums main_texts
      main_numbers small_numbers Let_def)

lemma main_output:
  "map_sum id (map_prod id buffer) main =
   Inr (0,
      ''=== RIDE SHARING SYSTEM - C++ IMPLEMENTATION ===\<newline>'' @
      ''Demonstrating OOP Principles: Encapsulation, Inheritance, and Polymorphism\<newline>'' @
      ''Ride requested by Alice Brown (ID: 201)\<newline>'' @
      ''Ride requested by Alice Brown (ID: 201)\<newline>'' @
      ''Ride requested by Bob Wilson (ID: 202)\<newline>'' @
      ''Ride requested by Bob Wilson (ID: 202)\<newline>'' @
      ''\<newline>'' @
      ''=== DRIVER INFORMATION ===\<newline>'' @
      ''Driver ID: 101\<newline>'' @
      ''Name: John Smith\<newline>'' @
      ''Rating: 4.8/5.0\<newline>'' @
      ''Total Rides Completed: 2\<newline>'' @
      ''Total Earnings: $82.66\<newline>'' @
      ''\<newline>'' @
      ''=== DRIVER INFORMATION ===\<newline>'' @
      ''Driver ID: 102\<newline>'' @
      ''Name: Sarah Johnson\<newline>'' @
      ''Rating: 4.90/5.0\<newline>'' @
      ''Total Rides Completed: 2\<newline>'' @
      ''Total Earnings: $186.54\<newline>'' @
      ''\<newline>'' @
      ''=== RIDER RIDE HISTORY ===\<newline>'' @
      ''Rider: Alice Brown (ID: 201)\<newline>'' @
      ''Total Rides: 2\<newline>'' @
      ''\<newline>'' @
      ''--- Ride 1 ---\<newline>'' @
      ''Ride ID: 1\<newline>'' @
      ''Pickup: Downtown\<newline>'' @
      ''Dropoff: Airport\<newline>'' @
      ''Distance: 15.50 miles\<newline>'' @
      ''Fare: $31.00\<newline>'' @
      ''\<newline>'' @
      ''--- Ride 2 ---\<newline>'' @
      ''=== PREMIUM RIDE ===\<newline>'' @
      ''Ride ID: 4\<newline>'' @
      ''Pickup: Airport\<newline>'' @
      ''Dropoff: Luxury Resort\<newline>'' @
      ''Distance: 25.80 miles\<newline>'' @
      ''Fare: $162.54\<newline>'' @
      ''Luxury Multiplier: 1.80x\<newline>'' @
      ''\<newline>'' @
      ''Total Amount Spent: $193.54\<newline>'' @
      ''\<newline>'' @
      ''=== RIDER RIDE HISTORY ===\<newline>'' @
      ''Rider: Bob Wilson (ID: 202)\<newline>'' @
      ''Total Rides: 2\<newline>'' @
      ''\<newline>'' @
      ''--- Ride 1 ---\<newline>'' @
      ''=== PREMIUM RIDE ===\<newline>'' @
      ''Ride ID: 2\<newline>'' @
      ''Pickup: Hotel\<newline>'' @
      ''Dropoff: Convention Center\<newline>'' @
      ''Distance: 8.20 miles\<newline>'' @
      ''Fare: $51.66\<newline>'' @
      ''Luxury Multiplier: 1.80x\<newline>'' @
      ''\<newline>'' @
      ''--- Ride 2 ---\<newline>'' @
      ''Ride ID: 3\<newline>'' @
      ''Pickup: Mall\<newline>'' @
      ''Dropoff: University\<newline>'' @
      ''Distance: 12.00 miles\<newline>'' @
      ''Fare: $24.00\<newline>'' @
      ''\<newline>'' @
      ''Total Amount Spent: $75.66\<newline>'' @
      ''\<newline>'' @
      ''=== POLYMORPHISM DEMONSTRATION ===\<newline>'' @
      ''Processing different ride types polymorphically:\<newline>'' @
      ''\<newline>'' @
      ''--- Standard Ride ---\<newline>'' @
      ''Ride ID: 1\<newline>'' @
      ''Pickup: Downtown\<newline>'' @
      ''Dropoff: Airport\<newline>'' @
      ''Distance: 15.50 miles\<newline>'' @
      ''Fare: $31.00\<newline>'' @
      ''\<newline>'' @
      ''--- Premium Ride ---\<newline>'' @
      ''=== PREMIUM RIDE ===\<newline>'' @
      ''Ride ID: 2\<newline>'' @
      ''Pickup: Hotel\<newline>'' @
      ''Dropoff: Convention Center\<newline>'' @
      ''Distance: 8.20 miles\<newline>'' @
      ''Fare: $51.66\<newline>'' @
      ''Luxury Multiplier: 1.80x\<newline>'' @
      ''\<newline>'' @
      ''--- Standard Ride ---\<newline>'' @
      ''Ride ID: 3\<newline>'' @
      ''Pickup: Mall\<newline>'' @
      ''Dropoff: University\<newline>'' @
      ''Distance: 12.00 miles\<newline>'' @
      ''Fare: $24.00\<newline>'' @
      ''\<newline>'' @
      ''--- Premium Ride ---\<newline>'' @
      ''=== PREMIUM RIDE ===\<newline>'' @
      ''Ride ID: 4\<newline>'' @
      ''Pickup: Airport\<newline>'' @
      ''Dropoff: Luxury Resort\<newline>'' @
      ''Distance: 25.80 miles\<newline>'' @
      ''Fare: $162.54\<newline>'' @
      ''Luxury Multiplier: 1.80x\<newline>'' @
      ''\<newline>'' @
      ''Total Fares for All Rides: $269.20\<newline>'')"
  by (simp add: main_def Let_def cout_def requestRide_def addRide_def new_Driver_def
      new_Rider_def stream_defs main_driver1 main_driver2 main_rider1 main_rider2
      main_demonstration main_numbers)

end
